theory Spec2Isabelle
  imports Complex_Main "HOL-Library.Sublist"
begin

section \<open>JavaScript values\<close>

text \<open>
  The values the program receives from the list service and reads out of items are
  untyped JSON-like values. Numbers are IEEE doubles in the source; only their
  classification (NaN, infinite, finite) and the test against zero are used here, so a
  finite number is carried as a rational. A JavaScript string is carried as its UTF-8
  encoding, one \<open>char\<close> per byte.
\<close>

datatype jsnum = NaN | PosInf | NegInf | Finite rat

datatype json =
    JUndefined
  | JNull
  | JBool bool
  | JNum jsnum
  | JStr string
  | JArr "json list"
  | JObj "(string \<times> json) list"

text \<open>JavaScript truthiness, as used by \<^verbatim>\<open>if (x)\<close>, \<^verbatim>\<open>!x\<close> and \<^verbatim>\<open>x && y\<close>.\<close>

fun truthy :: "json \<Rightarrow> bool" where
  "truthy JUndefined = False"
| "truthy JNull = False"
| "truthy (JBool b) = b"
| "truthy (JNum n) = (n \<noteq> NaN \<and> n \<noteq> Finite 0)"
| "truthy (JStr s) = (s \<noteq> [])"
| "truthy (JArr xs) = True"
| "truthy (JObj kvs) = True"

text \<open>
  Property access \<^verbatim>\<open>v.k\<close> for the keys the program reads (none of them is
  \<^verbatim>\<open>length\<close> or an index): the stored value for an object that has the key,
  \<^verbatim>\<open>undefined\<close> otherwise. An object carries each key once. The program reads
  properties only of values it has tested to be non-null.
\<close>

fun js_get :: "json \<Rightarrow> string \<Rightarrow> json" where
  "js_get (JObj kvs) k = (case map_of kvs k of Some v \<Rightarrow> v | None \<Rightarrow> JUndefined)"
| "js_get v k = JUndefined"

text \<open>\<^verbatim>\<open>a ?? b\<close>: the left operand unless it is null or undefined.\<close>

definition nullish :: "json \<Rightarrow> bool" where
  "nullish v = (v = JNull \<or> v = JUndefined)"

definition js_coalesce :: "json \<Rightarrow> json \<Rightarrow> json" where
  "js_coalesce a b = (if nullish a then b else a)"


section \<open>Errors, schemas and the outside world\<close>

text \<open>
  A thrown value: \<^verbatim>\<open>error.code\<close> (set by the file system, e.g. ENOENT),
  \<^verbatim>\<open>error.data.error\<close> (set by the list service client, e.g. unknown_method) and a
  message.
\<close>

datatype error = Error (err_code: "string option") (err_data_error: "string option") (err_message: string)

definition syntax_error :: error where
  "syntax_error = Error None None ''SyntaxError''"

record column =
  col_id :: string
  col_key :: string
  col_name :: string
  col_type :: string
  col_options :: "(string \<times> string) list option"

record schema =
  list_id :: string
  columns :: "column list"

text \<open>
  A file either cannot be read (\<^verbatim>\<open>fs.readFile\<close> throws the error, ENOENT when the
  file does not exist) or holds text, which \<^verbatim>\<open>JSON.parse\<close> either rejects or turns
  into the schema that was stored (\<^verbatim>\<open>JSON.stringify\<close> followed by
  \<^verbatim>\<open>JSON.parse\<close> is taken to be the identity on schemas, as the source's cast to
  ListSchema assumes).
\<close>

datatype content = Malformed | Doc schema

datatype stored = ReadFails error | Holds content

datatype event =
    CacheRead string
  | CacheMkdir string
  | CacheWrite string schema
  | SchemaFileRead string
  | RemoteCall string "(string \<times> json) list"

text \<open>
  The world outside the process: the files, the conditions under which creating a
  directory or writing a file fails, the list service (the answer of
  \<^verbatim>\<open>client.call(method, params)\<close>: an error thrown, or the key-value pairs of the
  response object), and the trace of the effects performed so far, in order.
\<close>

record world =
  files :: "string \<Rightarrow> stored"
  mkdir_failure :: "string \<Rightarrow> error option"
  write_failure :: "string \<Rightarrow> error option"
  service :: "string \<Rightarrow> (string \<times> json) list \<Rightarrow> error + (string \<times> json) list"
  trace :: "event list"

text \<open>The process environment the cache and the resolver read.\<close>

record env =
  XDG_CONFIG_HOME :: "string option"
  homedir :: string
  SLACK_LIST_SCHEMA_PATH :: "string option"

section \<open>Asynchronous code as state passing with errors\<close>

type_synonym 'a io = "world \<Rightarrow> (error + 'a) \<times> world"

definition io_return :: "'a \<Rightarrow> 'a io" where
  "io_return x w = (Inr x, w)"

definition io_throw :: "error \<Rightarrow> 'a io" where
  "io_throw e w = (Inl e, w)"

definition io_bind :: "'a io \<Rightarrow> ('a \<Rightarrow> 'b io) \<Rightarrow> 'b io" where
  "io_bind m f w = (case m w of (Inl e, w') \<Rightarrow> (Inl e, w') | (Inr x, w') \<Rightarrow> f x w')"

text \<open>\<^verbatim>\<open>try { m } catch (error) { h(error) }\<close>\<close>

definition io_catch :: "'a io \<Rightarrow> (error \<Rightarrow> 'a io) \<Rightarrow> 'a io" where
  "io_catch m h w = (case m w of (Inl e, w') \<Rightarrow> h e w' | (Inr x, w') \<Rightarrow> (Inr x, w'))"

text \<open>A synchronous call that returns or throws.\<close>

definition io_lift :: "error + 'a \<Rightarrow> 'a io" where
  "io_lift r w = (r, w)"

definition emit :: "event \<Rightarrow> unit io" where
  "emit ev w = (Inr (), w\<lparr>trace := trace w @ [ev]\<rparr>)"

definition fs_readFile :: "string \<Rightarrow> content io" where
  "fs_readFile p w = (case files w p of ReadFails e \<Rightarrow> (Inl e, w) | Holds c \<Rightarrow> (Inr c, w))"

definition fs_mkdir :: "string \<Rightarrow> unit io" where
  "fs_mkdir d w = (case mkdir_failure w d of Some e \<Rightarrow> (Inl e, w) | None \<Rightarrow> (Inr (), w))"

definition fs_writeFile :: "string \<Rightarrow> schema \<Rightarrow> unit io" where
  "fs_writeFile p s w =
     (case write_failure w p of
        Some e \<Rightarrow> (Inl e, w)
      | None \<Rightarrow> (Inr (), w\<lparr>files := (files w)(p := Holds (Doc s))\<rparr>))"

definition JSON_parse :: "content \<Rightarrow> schema io" where
  "JSON_parse c = (case c of Malformed \<Rightarrow> io_throw syntax_error | Doc s \<Rightarrow> io_return s)"

definition client_call :: "string \<Rightarrow> (string \<times> json) list \<Rightarrow> json io" where
  "client_call method params =
     io_bind (emit (RemoteCall method params)) (\<lambda>_.
       (\<lambda>w. (map_sum id JObj (service w method params), w)))"

section \<open>lib/cache.ts\<close>

definition NEW_CACHE_DIR :: string where
  "NEW_CACHE_DIR = ''ml-agent''"

definition LEGACY_CACHE_DIR :: string where
  "LEGACY_CACHE_DIR = ''slack-lists-cli''"

text \<open>\<^verbatim>\<open>path.join\<close> on two segments, without its normalisation of dots and slashes.\<close>

definition path_join :: "string \<Rightarrow> string \<Rightarrow> string" where
  "path_join a b = a @ ''/'' @ b"

text \<open>\<^verbatim>\<open>path.dirname\<close>: what precedes the last slash.\<close>

definition path_dirname :: "string \<Rightarrow> string" where
  "path_dirname p = rev (drop 1 (dropWhile (\<lambda>c. c \<noteq> CHR ''/'') (rev p)))"

text \<open>\<^verbatim>\<open>process.env.XDG_CONFIG_HOME || path.join(os.homedir(), ".config")\<close>\<close>

definition config_base :: "env \<Rightarrow> string" where
  "config_base e =
     (case XDG_CONFIG_HOME e of
        Some d \<Rightarrow> if d \<noteq> [] then d else path_join (homedir e) ''.config''
      | None \<Rightarrow> path_join (homedir e) ''.config'')"

text \<open>
  \<^verbatim>\<open>getCacheDir\<close> tests \<^verbatim>\<open>existsSync(primary)\<close> and returns
  \<^verbatim>\<open>primary\<close> on both branches.
\<close>

definition getCacheDir :: "env \<Rightarrow> string" where
  "getCacheDir e = path_join (config_base e) NEW_CACHE_DIR"

definition getLegacyCacheDir :: "env \<Rightarrow> string" where
  "getLegacyCacheDir e = path_join (config_base e) LEGACY_CACHE_DIR"

definition getSchemaCachePath :: "env \<Rightarrow> string \<Rightarrow> string" where
  "getSchemaCachePath e listId =
     path_join (path_join (getCacheDir e) ''schemas'') (listId @ ''.json'')"

definition legacySchemaPath :: "env \<Rightarrow> string \<Rightarrow> string" where
  "legacySchemaPath e listId =
     path_join (path_join (getLegacyCacheDir e) ''schemas'') (listId @ ''.json'')"

definition cache_read :: "string \<Rightarrow> schema io" where
  "cache_read p =
     io_bind (emit (CacheRead p)) (\<lambda>_.
     io_bind (fs_readFile p) (\<lambda>raw. JSON_parse raw))"

definition loadCachedSchema :: "env \<Rightarrow> string \<Rightarrow> schema option io" where
  "loadCachedSchema e listId =
     (let filePath = getSchemaCachePath e listId in
      io_catch
        (io_bind (cache_read filePath) (\<lambda>s. io_return (Some s)))
        (\<lambda>error.
           if err_code error = Some ''ENOENT'' then
             (let legacyPath = legacySchemaPath e listId in
              io_catch
                (io_bind (cache_read legacyPath) (\<lambda>s. io_return (Some s)))
                (\<lambda>legacyError.
                   if err_code legacyError = Some ''ENOENT'' then io_return None
                   else io_throw legacyError))
           else io_throw error))"

definition saveSchemaCache :: "env \<Rightarrow> string \<Rightarrow> schema \<Rightarrow> unit io" where
  "saveSchemaCache e listId s =
     (let filePath = getSchemaCachePath e listId in
      io_bind (emit (CacheMkdir (path_dirname filePath))) (\<lambda>_.
      io_bind (fs_mkdir (path_dirname filePath)) (\<lambda>_.
      io_bind (emit (CacheWrite filePath s)) (\<lambda>_.
      fs_writeFile filePath s))))"

text \<open>
  Modelled from the spec: \<^verbatim>\<open>mergeSchemas\<close> of lib/schema.ts, which is not among
  the sources. The spec: union of columns by id; on id collision the existing
  (previously recorded) column definition wins; new columns from the candidate are
  appended after existing ones, preserving existing order. With no existing schema the
  candidate is the result.
\<close>

fun append_new_columns :: "column list \<Rightarrow> column list \<Rightarrow> column list" where
  "append_new_columns recorded [] = recorded"
| "append_new_columns recorded (c # cs) =
     append_new_columns
       (if col_id c \<in> set (map col_id recorded) then recorded else recorded @ [c]) cs"

definition mergeSchemas :: "schema option \<Rightarrow> schema \<Rightarrow> schema" where
  "mergeSchemas existing candidate =
     (case existing of
        None \<Rightarrow> candidate
      | Some ex \<Rightarrow> ex\<lparr>columns := append_new_columns (columns ex) (columns candidate)\<rparr>)"

definition updateSchemaCache :: "env \<Rightarrow> string \<Rightarrow> schema \<Rightarrow> schema io" where
  "updateSchemaCache e listId s =
     io_bind (loadCachedSchema e listId) (\<lambda>cached.
     (let merged = mergeSchemas cached s in
      io_bind (saveSchemaCache e listId merged) (\<lambda>_. io_return merged)))"

section \<open>lib/config.ts\<close>

text \<open>\<^verbatim>\<open>cliPath ?? process.env.SLACK_LIST_SCHEMA_PATH\<close>\<close>

definition resolveSchemaPath :: "env \<Rightarrow> string option \<Rightarrow> string option" where
  "resolveSchemaPath e cliPath =
     (case cliPath of Some p \<Rightarrow> Some p | None \<Rightarrow> SLACK_LIST_SCHEMA_PATH e)"

section \<open>lib/schema-resolver.ts (unnamed/part_001, lines 124 to 213)\<close>

text \<open>
  lib/schema.ts is not among the sources. Three of its functions are parameters of the
  code that calls them: \<^verbatim>\<open>normalizeSchema\<close> and \<^verbatim>\<open>inferSchemaFromItems\<close>, which
  return a schema or throw, and \<^verbatim>\<open>buildSchemaIndex\<close>.
\<close>

record 'ix deps =
  normalizeSchema :: "json \<Rightarrow> error + schema"
  inferSchemaFromItems :: "string \<Rightarrow> json list \<Rightarrow> error + schema"
  buildSchemaIndex :: "schema \<Rightarrow> 'ix"

text \<open>
  Modelled from the spec: \<^verbatim>\<open>loadSchemaFromFile\<close> of lib/schema.ts, which is not
  among the sources. The spec: a schema is created by loading a user-supplied file; the
  override tier loads it directly.
\<close>

definition loadSchemaFromFile :: "string \<Rightarrow> schema io" where
  "loadSchemaFromFile p =
     io_bind (emit (SchemaFileRead p)) (\<lambda>_.
     io_bind (fs_readFile p) (\<lambda>raw. JSON_parse raw))"

text \<open>\<^verbatim>\<open>(error as { data?: { error?: string } })?.data?.error\<close>\<close>

definition slackError :: "error \<Rightarrow> string option" where
  "slackError error = err_data_error error"

text \<open>Truthiness of an optional string: present and not empty.\<close>

definition present :: "string option \<Rightarrow> bool" where
  "present r = (case r of Some s \<Rightarrow> s \<noteq> [] | None \<Rightarrow> False)"

text \<open>
  Each block of the resolver yields \<open>Some r\<close> when the source executes
  \<^verbatim>\<open>return r\<close> inside it (\<open>r = None\<close> for \<^verbatim>\<open>undefined\<close>) and
  \<open>None\<close> when control continues below the block.
\<close>

text \<open>
  The catch clause of lines 161 to 165 and again of lines 205 to 209: an error other
  than unknown_method is thrown again, unknown_method lets control continue.
\<close>

definition unsupported_falls_through :: "error \<Rightarrow> 'a option io" where
  "unsupported_falls_through error =
     (if slackError error \<noteq> Some ''unknown_method'' then io_throw error
      else io_return None)"

text \<open>Lines 154 to 166: the call of slackLists.info.\<close>

definition describe_tier :: "'ix deps \<Rightarrow> env \<Rightarrow> string \<Rightarrow> 'ix option option io" where
  "describe_tier D e listId =
     io_catch
       (io_bind (client_call ''slackLists.info'' [(''list_id'', JStr listId)]) (\<lambda>result.
          if truthy (js_get result ''ok'') then
            io_bind (io_lift (normalizeSchema D result)) (\<lambda>schema.
            io_bind (saveSchemaCache e listId schema) (\<lambda>_.
            io_return (Some (Some (buildSchemaIndex D schema)))))
          else io_return None))
       unsupported_falls_through"

text \<open>\<^verbatim>\<open>(itemsResult as { items?: ... }).items ?? []\<close>, an array by its declared type.\<close>

definition items_of :: "json \<Rightarrow> json list" where
  "items_of itemsResult =
     (case js_coalesce (js_get itemsResult ''items'') (JArr []) of
        JArr xs \<Rightarrow> xs
      | _ \<Rightarrow> [])"

text \<open>\<^verbatim>\<open>items[0]?.id\<close>\<close>

definition first_item_id :: "json list \<Rightarrow> json" where
  "first_item_id items =
     (case items of
        [] \<Rightarrow> JUndefined
      | x # rest \<Rightarrow> if nullish x then JUndefined else js_get x ''id'')"

text \<open>
  Lines 177 to 196: the call of slackLists.items.info for the first item.
  \<^verbatim>\<open>list?.list_metadata\<close> is \<open>js_get\<close>, which is undefined on a missing list.
\<close>

definition metadata_probe :: "'ix deps \<Rightarrow> env \<Rightarrow> string \<Rightarrow> json \<Rightarrow> 'ix option option io" where
  "metadata_probe D e listId firstItemId =
     io_catch
       (io_bind (client_call ''slackLists.items.info''
                   [(''list_id'', JStr listId), (''id'', firstItemId)]) (\<lambda>infoResult.
          (let list = js_get infoResult ''list'' in
           if truthy (js_get list ''list_metadata'') then
             io_bind (io_lift (normalizeSchema D
                        (JObj [(''list_metadata'', js_get list ''list_metadata''),
                               (''list_id'', js_coalesce (js_get list ''id'') (JStr listId))])))
               (\<lambda>schema.
             io_bind (saveSchemaCache e listId schema) (\<lambda>_.
             io_return (Some (Some (buildSchemaIndex D schema)))))
           else io_return None)))
       (\<lambda>error.
          if present (slackError error) \<and> slackError error \<noteq> Some ''unknown_method''
          then io_throw error
          else io_return None)"

text \<open>Lines 199 to 204: the inference from the sampled items.\<close>

definition infer_and_merge :: "'ix deps \<Rightarrow> env \<Rightarrow> string \<Rightarrow> json list \<Rightarrow> 'ix option option io" where
  "infer_and_merge D e listId items =
     io_bind (io_lift (inferSchemaFromItems D listId items)) (\<lambda>inferred.
       if length (columns inferred) = 0 then io_return (Some None)
       else
         io_bind (updateSchemaCache e listId inferred) (\<lambda>merged.
         io_return (Some (Some (buildSchemaIndex D merged)))))"

text \<open>Lines 168 to 210: the sample of items, the probe and the inference.\<close>

definition sample_tier :: "'ix deps \<Rightarrow> env \<Rightarrow> string \<Rightarrow> 'ix option option io" where
  "sample_tier D e listId =
     io_catch
       (io_bind (client_call ''slackLists.items.list''
                   [(''list_id'', JStr listId), (''limit'', JNum (Finite 100))]) (\<lambda>itemsResult.
          (let items = items_of itemsResult;
               firstItemId = first_item_id items in
           io_bind (if truthy firstItemId then metadata_probe D e listId firstItemId
                    else io_return None) (\<lambda>probe.
             case probe of
               Some r \<Rightarrow> io_return (Some r)
             | None \<Rightarrow> infer_and_merge D e listId items))))
       unsupported_falls_through"

text \<open>Lines 147 to 152: the cache, unless a refresh is asked for.\<close>

definition cache_tier :: "'ix deps \<Rightarrow> env \<Rightarrow> string \<Rightarrow> bool \<Rightarrow> 'ix option option io" where
  "cache_tier D e listId refreshCache =
     (if \<not> refreshCache then
        io_bind (loadCachedSchema e listId) (\<lambda>cached.
          case cached of
            Some c \<Rightarrow> io_return (Some (Some (buildSchemaIndex D c)))
          | None \<Rightarrow> io_return None)
      else io_return None)"

text \<open>The client is the \<open>service\<close> of the world.\<close>

definition resolveSchemaIndex ::
  "'ix deps \<Rightarrow> env \<Rightarrow> string \<Rightarrow> string option \<Rightarrow> bool \<Rightarrow> 'ix option io" where
  "resolveSchemaIndex D e listId schemaPath refreshCache =
     (let resolvedPath = resolveSchemaPath e schemaPath in
      if present resolvedPath then
        io_bind (loadSchemaFromFile (case resolvedPath of Some p \<Rightarrow> p | None \<Rightarrow> []))
          (\<lambda>schema. io_return (Some (buildSchemaIndex D schema)))
      else
        io_bind (cache_tier D e listId refreshCache) (\<lambda>r2.
          case r2 of
            Some r \<Rightarrow> io_return r
          | None \<Rightarrow>
              io_bind (describe_tier D e listId) (\<lambda>r3.
                case r3 of
                  Some r \<Rightarrow> io_return r
                | None \<Rightarrow>
                    io_bind (sample_tier D e listId) (\<lambda>r4.
                      case r4 of
                        Some r \<Rightarrow> io_return r
                      | None \<Rightarrow> io_return None))))"

section \<open>The item commands (unnamed/part_002): cache updates after item reads\<close>

definition syncSchemaCache :: "'ix deps \<Rightarrow> env \<Rightarrow> string \<Rightarrow> json list \<Rightarrow> unit io" where
  "syncSchemaCache D e listId items =
     io_catch
       (io_bind (io_lift (inferSchemaFromItems D listId items)) (\<lambda>inferred.
        io_bind (updateSchemaCache e listId inferred) (\<lambda>_. io_return ())))
       (\<lambda>_. io_return ())"

text \<open>
  The body of the action of \<^verbatim>\<open>items get\<close>, lines 422 to 441; its value is what the
  action hands to \<^verbatim>\<open>outputJson\<close>, an error is what it hands to
  \<^verbatim>\<open>handleCommandError\<close>.
\<close>

definition embedded_schema_update :: "'ix deps \<Rightarrow> env \<Rightarrow> string \<Rightarrow> json \<Rightarrow> unit io" where
  "embedded_schema_update D e listId result =
     io_catch
       (let list = js_get result ''list'' in
        if truthy (js_get list ''list_metadata'') then
          io_bind (io_lift (normalizeSchema D
                     (JObj [(''list_metadata'', js_get list ''list_metadata''),
                            (''list_id'', js_coalesce (js_get list ''id'') (JStr listId))])))
            (\<lambda>schema.
          io_bind (updateSchemaCache e listId schema) (\<lambda>_. io_return ()))
        else io_return ())
       (\<lambda>_. io_return ())"

definition items_get_action :: "'ix deps \<Rightarrow> env \<Rightarrow> string \<Rightarrow> string \<Rightarrow> json io" where
  "items_get_action D e listId itemId =
     io_bind (client_call ''slackLists.items.info''
                [(''list_id'', JStr listId), (''id'', JStr itemId)]) (\<lambda>result.
     io_bind (embedded_schema_update D e listId result) (\<lambda>_.
       (let item = js_coalesce (js_get result ''item'') (js_get result ''record'') in
        io_bind (if truthy item then syncSchemaCache D e listId [item] else io_return ()) (\<lambda>_.
        io_return result))))"

section \<open>The item commands (unnamed/part_002): reading values out of an item\<close>

















section \<open>Conditions used in the statements\<close>

text \<open>The read of a path fails with ENOENT: no such file.\<close>

definition absent :: "world \<Rightarrow> string \<Rightarrow> bool" where
  "absent w p = (case files w p of ReadFails err \<Rightarrow> err_code err = Some ''ENOENT'' | Holds c \<Rightarrow> False)"

text \<open>The cache tier does not return: a refresh is asked for, or neither path exists.\<close>

definition cache_misses :: "env \<Rightarrow> string \<Rightarrow> bool \<Rightarrow> world \<Rightarrow> bool" where
  "cache_misses e listId refreshCache w =
     (refreshCache \<or> (absent w (getSchemaCachePath e listId) \<and> absent w (legacySchemaPath e listId)))"

text \<open>The reads the cache tier performs when it misses.\<close>

definition cache_probe :: "env \<Rightarrow> string \<Rightarrow> bool \<Rightarrow> event list" where
  "cache_probe e listId refreshCache =
     (if refreshCache then []
      else [CacheRead (getSchemaCachePath e listId), CacheRead (legacySchemaPath e listId)])"

text \<open>
  The describe call does not produce a schema and is not fatal: it is rejected as
  unknown_method, or its response is not ok.
\<close>

definition describe_unavailable :: "string \<Rightarrow> world \<Rightarrow> bool" where
  "describe_unavailable listId w =
     (case service w ''slackLists.info'' [(''list_id'', JStr listId)] of
        Inl err \<Rightarrow> slackError err = Some ''unknown_method''
      | Inr result \<Rightarrow> \<not> truthy (js_get (JObj result) ''ok''))"

text \<open>Creating the cache directory and writing the canonical file both succeed.\<close>

definition can_save :: "env \<Rightarrow> string \<Rightarrow> world \<Rightarrow> bool" where
  "can_save e listId w =
     (mkdir_failure w (path_dirname (getSchemaCachePath e listId)) = None
      \<and> write_failure w (getSchemaCachePath e listId) = None)"

text \<open>The events of a successful save.\<close>

definition save_events :: "env \<Rightarrow> string \<Rightarrow> schema \<Rightarrow> event list" where
  "save_events e listId s =
     [CacheMkdir (path_dirname (getSchemaCachePath e listId)),
      CacheWrite (getSchemaCachePath e listId) s]"

text \<open>
  What a load finds, as a function of the files: its outcome and the paths it reads, in
  order.
\<close>

definition cache_lookup :: "env \<Rightarrow> string \<Rightarrow> (string \<Rightarrow> stored) \<Rightarrow> (error + schema option) \<times> string list" where
  "cache_lookup e listId fs =
     (case fs (getSchemaCachePath e listId) of
        Holds (Doc s) \<Rightarrow> (Inr (Some s), [getSchemaCachePath e listId])
      | Holds Malformed \<Rightarrow> (Inl syntax_error, [getSchemaCachePath e listId])
      | ReadFails err \<Rightarrow>
          if err_code err = Some ''ENOENT'' then
            (case fs (legacySchemaPath e listId) of
               Holds (Doc s) \<Rightarrow> Inr (Some s)
             | Holds Malformed \<Rightarrow> Inl syntax_error
             | ReadFails lerr \<Rightarrow> if err_code lerr = Some ''ENOENT'' then Inr None else Inl lerr,
             [getSchemaCachePath e listId, legacySchemaPath e listId])
          else (Inl err, [getSchemaCachePath e listId]))"

text \<open>The request parameters of the three remote calls.\<close>

definition info_call :: "string \<Rightarrow> event" where
  "info_call listId = RemoteCall ''slackLists.info'' [(''list_id'', JStr listId)]"

definition items_list_call :: "string \<Rightarrow> event" where
  "items_list_call listId =
     RemoteCall ''slackLists.items.list'' [(''list_id'', JStr listId), (''limit'', JNum (Finite 100))]"

definition items_info_call :: "string \<Rightarrow> json \<Rightarrow> event" where
  "items_info_call listId itemId =
     RemoteCall ''slackLists.items.info'' [(''list_id'', JStr listId), (''id'', itemId)]"

text \<open>
  The probe of the first item is skipped or does not produce a schema and is not fatal:
  there is no first item id, or the detail call is rejected as unknown_method, or its
  response embeds no list metadata.
\<close>

definition probe_passes :: "string \<Rightarrow> json \<Rightarrow> world \<Rightarrow> bool" where
  "probe_passes listId firstItemId w =
     (if truthy firstItemId then
        (case service w ''slackLists.items.info'' [(''list_id'', JStr listId), (''id'', firstItemId)] of
           Inl err \<Rightarrow> slackError err = Some ''unknown_method''
         | Inr infoResult \<Rightarrow>
             \<not> truthy (js_get (js_get (JObj infoResult) ''list'') ''list_metadata''))
      else True)"

definition probe_events :: "string \<Rightarrow> json \<Rightarrow> event list" where
  "probe_events listId firstItemId =
     (if truthy firstItemId then [items_info_call listId firstItemId] else [])"

text \<open>
  What the resolver does once control reaches line 199 with the sampled items: the
  inference under the outer catch clause, then the return.
\<close>

definition from_inference :: "'ix deps \<Rightarrow> env \<Rightarrow> string \<Rightarrow> json list \<Rightarrow> 'ix option io" where
  "from_inference D e listId items =
     io_bind (io_catch (infer_and_merge D e listId items) unsupported_falls_through) (\<lambda>r4.
       case r4 of
         Some r \<Rightarrow> io_return r
       | None \<Rightarrow> io_return None)"









section \<open>Sample inputs\<close>

text \<open>Concrete environments, files, schemas and services, used to instantiate the theorems.\<close>

definition sample_env :: env where
  "sample_env = \<lparr>XDG_CONFIG_HOME = Some ''/cfg'', homedir = ''/home/u'', SLACK_LIST_SCHEMA_PATH = None\<rparr>"

definition ENOENT :: error where
  "ENOENT = Error (Some ''ENOENT'') None ''no such file or directory''"

definition EACCES :: error where
  "EACCES = Error (Some ''EACCES'') None ''permission denied''"

definition status_column :: column where
  "status_column =
     \<lparr>col_id = ''Col1'', col_key = ''status'', col_name = ''Status'', col_type = ''select'',
      col_options = Some [(''open'', ''Open''), (''done'', ''Done'')]\<rparr>"

definition owner_column :: column where
  "owner_column =
     \<lparr>col_id = ''Col2'', col_key = ''owner'', col_name = ''Owner'', col_type = ''user'',
      col_options = None\<rparr>"

definition confirmed_schema :: schema where
  "confirmed_schema = \<lparr>list_id = ''L1'', columns = [status_column]\<rparr>"

definition unsupported :: error where
  "unsupported = Error None (Some ''unknown_method'') ''unknown_method''"

definition no_service :: "string \<Rightarrow> (string \<times> json) list \<Rightarrow> error + (string \<times> json) list" where
  "no_service method params = Inl unsupported"

definition world_with ::
  "(string \<Rightarrow> stored) \<Rightarrow> (string \<Rightarrow> (string \<times> json) list \<Rightarrow> error + (string \<times> json) list) \<Rightarrow> world" where
  "world_with fs srv =
     \<lparr>files = fs, mkdir_failure = (\<lambda>d. None), write_failure = (\<lambda>p. None),
      service = srv, trace = []\<rparr>"

definition legacy_only_files :: "string \<Rightarrow> stored" where
  "legacy_only_files p =
     (if p = ''/cfg/slack-lists-cli/schemas/L1.json'' then Holds (Doc confirmed_schema)
      else ReadFails ENOENT)"

definition legacy_only_world :: world where
  "legacy_only_world = world_with legacy_only_files no_service"

definition conflicting_status_column :: column where
  "conflicting_status_column =
     \<lparr>col_id = ''Col1'', col_key = ''field_1'', col_name = ''field_1'', col_type = ''text'',
      col_options = None\<rparr>"

definition inferred_schema :: schema where
  "inferred_schema = \<lparr>list_id = ''L1'', columns = [conflicting_status_column, owner_column]\<rparr>"

definition empty_files :: "string \<Rightarrow> stored" where
  "empty_files p = ReadFails ENOENT"

definition locked_files :: "string \<Rightarrow> stored" where
  "locked_files p =
     (if p = ''/cfg/ml-agent/schemas/L1.json'' then ReadFails EACCES else ReadFails ENOENT)"

text \<open>Stand-ins for the parameters, and answers of the list service.\<close>

definition sample_item :: json where
  "sample_item =
     JObj [(''id'', JStr ''I1''),
           (''fields'',
            JArr [JObj [(''key'', JStr ''status''), (''column_id'', JStr ''Col1''),
                        (''select'', JArr [JStr ''open''])],
                  JObj [(''key'', JStr ''owner''), (''column_id'', JStr ''Col2''),
                        (''user'', JArr [JStr ''U1''])]])]"

definition bare_item :: json where
  "bare_item = JObj [(''id'', JStr ''I2'')]"

definition sample_deps :: "schema deps" where
  "sample_deps =
     \<lparr>normalizeSchema = (\<lambda>raw. Inr confirmed_schema),
      inferSchemaFromItems =
        (\<lambda>listId items.
           Inr \<lparr>list_id = listId,
                columns = (if list_ex (\<lambda>item. js_get item ''fields'' \<noteq> JUndefined) items
                           then [conflicting_status_column, owner_column] else [])\<rparr>),
      buildSchemaIndex = (\<lambda>s. s)\<rparr>"

definition ECONNRESET :: error where
  "ECONNRESET = Error (Some ''ECONNRESET'') None ''socket hang up''"

definition items_response :: "json list \<Rightarrow> (string \<times> json) list" where
  "items_response items = [(''ok'', JBool True), (''items'', JArr items)]"

text \<open>
  A list service: the answer of the describe call, the sampled items and the answer of
  the detail call are given.
\<close>

definition sample_service ::
  "error + (string \<times> json) list \<Rightarrow> json list \<Rightarrow> error + (string \<times> json) list \<Rightarrow>
   string \<Rightarrow> (string \<times> json) list \<Rightarrow> error + (string \<times> json) list" where
  "sample_service describe items detail method params =
     (if method = ''slackLists.info'' then describe
      else if method = ''slackLists.items.list'' then Inr (items_response items)
      else detail)"

definition ratelimited :: error where
  "ratelimited = Error None (Some ''ratelimited'') ''ratelimited''"

definition detail_with_metadata :: "(string \<times> json) list" where
  "detail_with_metadata =
     [(''ok'', JBool True),
      (''list'', JObj [(''id'', JStr ''L1''), (''list_metadata'', JObj [(''schema'', JArr [])])])]"

definition cached_files :: "string \<Rightarrow> stored" where
  "cached_files p =
     (if p = ''/cfg/ml-agent/schemas/L1.json'' then Holds (Doc confirmed_schema)
      else ReadFails ENOENT)"

definition env_with_schema_path :: "string \<Rightarrow> env" where
  "env_with_schema_path p =
     \<lparr>XDG_CONFIG_HOME = Some ''/cfg'', homedir = ''/home/u'', SLACK_LIST_SCHEMA_PATH = Some p\<rparr>"

text \<open>The override file and the cache hold different schemas.\<close>

definition override_and_cache_files :: "string \<Rightarrow> stored" where
  "override_and_cache_files p =
     (if p = ''/work/schema.json'' then Holds (Doc inferred_schema) else cached_files p)"






text \<open>A world with no cache file in which no file can be written.\<close>

definition unwritable_world ::
  "(string \<Rightarrow> (string \<times> json) list \<Rightarrow> error + (string \<times> json) list) \<Rightarrow> world" where
  "unwritable_world srv =
     \<lparr>files = empty_files, mkdir_failure = (\<lambda>d. None), write_failure = (\<lambda>p. Some EACCES),
      service = srv, trace = []\<rparr>"

text \<open>A world whose cache holds a schema and cannot be written.\<close>

definition readonly_world :: world where
  "readonly_world =
     \<lparr>files = cached_files, mkdir_failure = (\<lambda>d. None), write_failure = (\<lambda>p. Some EACCES),
      service = sample_service (Inl unsupported) [sample_item]
                  (Inr [(''ok'', JBool True), (''item'', sample_item)]),
      trace = []\<rparr>"

section \<open>Properties\<close>

subsection \<open>Merging\<close>

lemma append_new_columns_known:
  "set (map col_id cs) \<subseteq> set (map col_id recorded) \<Longrightarrow> append_new_columns recorded cs = recorded"
  by (induction cs arbitrary: recorded) auto

lemma append_new_columns_append:
  "append_new_columns recorded (xs @ ys) = append_new_columns (append_new_columns recorded xs) ys"
  by (induction xs arbitrary: recorded) auto

lemma append_new_columns_fresh:
  "distinct (map col_id extra) \<Longrightarrow> set (map col_id extra) \<inter> set (map col_id recorded) = {}
   \<Longrightarrow> append_new_columns recorded extra = recorded @ extra"
proof (induction extra arbitrary: recorded)
  case Nil
  then show ?case by simp
next
  case (Cons c cs)
  have "col_id c \<notin> set (map col_id recorded)" using Cons.prems by auto
  moreover have "append_new_columns (recorded @ [c]) cs = (recorded @ [c]) @ cs"
    using Cons.prems by (intro Cons.IH) auto
  ultimately show ?case by simp
qed

lemma append_new_columns_shape:
  "\<exists>extra. append_new_columns recorded cs = recorded @ extra
     \<and> subseq extra cs
     \<and> distinct (map col_id extra)
     \<and> set (map col_id extra) = set (map col_id cs) - set (map col_id recorded)"
proof (induction cs arbitrary: recorded)
  case Nil
  then show ?case by simp
next
  case (Cons c cs)
  show ?case
  proof (cases "col_id c \<in> set (map col_id recorded)")
    case True
    from Cons.IH[of recorded] obtain extra where
      e: "append_new_columns recorded cs = recorded @ extra" "subseq extra cs"
         "distinct (map col_id extra)"
         "set (map col_id extra) = set (map col_id cs) - set (map col_id recorded)"
      by blast
    show ?thesis
      apply (rule exI[of _ extra])
      using True e by auto
  next
    case False
    from Cons.IH[of "recorded @ [c]"] obtain extra where
      e: "append_new_columns (recorded @ [c]) cs = (recorded @ [c]) @ extra" "subseq extra cs"
         "distinct (map col_id extra)"
         "set (map col_id extra) = set (map col_id cs) - set (map col_id (recorded @ [c]))"
      by blast
    show ?thesis
      apply (rule exI[of _ "c # extra"])
      using False e by auto
  qed
qed

lemma append_new_columns_idem:
  "append_new_columns recorded (append_new_columns recorded cs) = append_new_columns recorded cs"
proof -
  obtain extra where e: "append_new_columns recorded cs = recorded @ extra"
     "distinct (map col_id extra)"
     "set (map col_id extra) = set (map col_id cs) - set (map col_id recorded)"
    using append_new_columns_shape by blast
  have "append_new_columns recorded (recorded @ extra) = append_new_columns recorded extra"
    by (simp add: append_new_columns_append append_new_columns_known)
  also have "\<dots> = recorded @ extra"
    using e by (intro append_new_columns_fresh) auto
  finally show ?thesis using e by simp
qed

lemma find_append_known:
  "k \<in> set (map col_id xs) \<Longrightarrow> find (\<lambda>c. col_id c = k) (xs @ ys) = find (\<lambda>c. col_id c = k) xs"
  by (induction xs) auto

text \<open>
  C2. For an existing schema and a candidate, the merged columns are the existing
  columns, in their order, followed by columns taken from the candidate in the
  candidate's order, one for each column id that the existing schema does not have. The
  ids of the merge are the union of the two id sets. Looking up an id of the existing
  schema in the merge finds the column the existing schema has for it, whatever the
  candidate says about that id. Distinct ids stay distinct.
\<close>

theorem mergeSchemas_existing_wins:
  "set (map col_id (columns (mergeSchemas (Some ex) cand))) =
      set (map col_id (columns ex)) \<union> set (map col_id (columns cand))
   \<and> (\<exists>extra. columns (mergeSchemas (Some ex) cand) = columns ex @ extra
         \<and> subseq extra (columns cand)
         \<and> distinct (map col_id extra)
         \<and> set (map col_id extra) =
             set (map col_id (columns cand)) - set (map col_id (columns ex)))
   \<and> (\<forall>k \<in> set (map col_id (columns ex)).
         find (\<lambda>c. col_id c = k) (columns (mergeSchemas (Some ex) cand)) =
         find (\<lambda>c. col_id c = k) (columns ex))
   \<and> (distinct (map col_id (columns ex)) \<longrightarrow>
         distinct (map col_id (columns (mergeSchemas (Some ex) cand))))"
proof -
  obtain extra where e:
    "append_new_columns (columns ex) (columns cand) = columns ex @ extra"
    "subseq extra (columns cand)"
    "distinct (map col_id extra)"
    "set (map col_id extra) = set (map col_id (columns cand)) - set (map col_id (columns ex))"
    using append_new_columns_shape by blast
  have m: "columns (mergeSchemas (Some ex) cand) = columns ex @ extra"
    by (simp add: mergeSchemas_def e(1))
  have ids: "set (map col_id (columns (mergeSchemas (Some ex) cand))) =
      set (map col_id (columns ex)) \<union> set (map col_id (columns cand))"
    using e(4) by (auto simp: m)
  have shape: "\<exists>extra. columns (mergeSchemas (Some ex) cand) = columns ex @ extra
         \<and> subseq extra (columns cand)
         \<and> distinct (map col_id extra)
         \<and> set (map col_id extra) =
             set (map col_id (columns cand)) - set (map col_id (columns ex))"
    using m e by blast
  have wins: "\<forall>k \<in> set (map col_id (columns ex)).
         find (\<lambda>c. col_id c = k) (columns (mergeSchemas (Some ex) cand)) =
         find (\<lambda>c. col_id c = k) (columns ex)"
    by (simp add: m find_append_known)
  have dist: "distinct (map col_id (columns ex)) \<longrightarrow>
         distinct (map col_id (columns (mergeSchemas (Some ex) cand)))"
    using e(3) e(4) by (auto simp: m)
  from ids shape wins dist show ?thesis by blast
qed

theorem mergeSchemas_existing_wins_witness:
  "''Col1'' \<in> set (map col_id (columns confirmed_schema))
   \<and> find (\<lambda>c. col_id c = ''Col1'') (columns inferred_schema) = Some conflicting_status_column
   \<and> find (\<lambda>c. col_id c = ''Col1'') (columns (mergeSchemas (Some confirmed_schema) inferred_schema)) =
       Some status_column
   \<and> set (map col_id (columns (mergeSchemas (Some confirmed_schema) inferred_schema))) =
       {''Col1'', ''Col2''}"
  using mergeSchemas_existing_wins [of confirmed_schema inferred_schema]
  by (simp add: confirmed_schema_def inferred_schema_def status_column_def owner_column_def
        conflicting_status_column_def insert_commute)

text \<open>
  C9. Merging the result of a merge into the same existing schema again changes
  nothing: merge(A, merge(A, B)) = merge(A, B), also when there is no existing schema.
\<close>

theorem mergeSchemas_idempotent:
  "mergeSchemas a (mergeSchemas a b) = mergeSchemas a b"
  by (cases a) (simp_all add: mergeSchemas_def append_new_columns_idem)

subsection \<open>Loading and saving\<close>

lemma cache_read_eval:
  "cache_read p w =
     ((case files w p of
         ReadFails err \<Rightarrow> Inl err
       | Holds Malformed \<Rightarrow> Inl syntax_error
       | Holds (Doc s) \<Rightarrow> Inr s),
      w\<lparr>trace := trace w @ [CacheRead p]\<rparr>)"
  by (simp add: cache_read_def io_bind_def emit_def fs_readFile_def JSON_parse_def
        io_throw_def io_return_def split: stored.splits content.splits)

lemma loadCachedSchema_eval:
  "loadCachedSchema e l w =
     (case files w (getSchemaCachePath e l) of
        Holds (Doc s) \<Rightarrow> (Inr (Some s), w\<lparr>trace := trace w @ [CacheRead (getSchemaCachePath e l)]\<rparr>)
      | Holds Malformed \<Rightarrow> (Inl syntax_error, w\<lparr>trace := trace w @ [CacheRead (getSchemaCachePath e l)]\<rparr>)
      | ReadFails err \<Rightarrow>
          if err_code err = Some ''ENOENT'' then
            (case files w (legacySchemaPath e l) of
               Holds (Doc s) \<Rightarrow> (Inr (Some s), w\<lparr>trace := trace w @ [CacheRead (getSchemaCachePath e l), CacheRead (legacySchemaPath e l)]\<rparr>)
             | Holds Malformed \<Rightarrow> (Inl syntax_error, w\<lparr>trace := trace w @ [CacheRead (getSchemaCachePath e l), CacheRead (legacySchemaPath e l)]\<rparr>)
             | ReadFails lerr \<Rightarrow>
                 (if err_code lerr = Some ''ENOENT'' then Inr None else Inl lerr,
                  w\<lparr>trace := trace w @ [CacheRead (getSchemaCachePath e l), CacheRead (legacySchemaPath e l)]\<rparr>))
          else (Inl err, w\<lparr>trace := trace w @ [CacheRead (getSchemaCachePath e l)]\<rparr>))"
  by (simp add: loadCachedSchema_def Let_def io_catch_def io_bind_def cache_read_eval
        io_return_def io_throw_def syntax_error_def split: stored.splits content.splits)

lemma saveSchemaCache_eval:
  "saveSchemaCache e l s w =
     (case mkdir_failure w (path_dirname (getSchemaCachePath e l)) of
        Some er \<Rightarrow> (Inl er, w\<lparr>trace := trace w @ [CacheMkdir (path_dirname (getSchemaCachePath e l))]\<rparr>)
      | None \<Rightarrow>
          (case write_failure w (getSchemaCachePath e l) of
             Some er \<Rightarrow>
               (Inl er, w\<lparr>trace := trace w @ [CacheMkdir (path_dirname (getSchemaCachePath e l)),
                                               CacheWrite (getSchemaCachePath e l) s]\<rparr>)
           | None \<Rightarrow>
               (Inr (), w\<lparr>trace := trace w @ [CacheMkdir (path_dirname (getSchemaCachePath e l)),
                                               CacheWrite (getSchemaCachePath e l) s],
                          files := (files w)(getSchemaCachePath e l := Holds (Doc s))\<rparr>)))"
  by (simp add: saveSchemaCache_def Let_def io_bind_def emit_def fs_mkdir_def fs_writeFile_def
        split: option.splits)

lemma sample_paths:
  "getSchemaCachePath sample_env ''L1'' = ''/cfg/ml-agent/schemas/L1.json''"
  "legacySchemaPath sample_env ''L1'' = ''/cfg/slack-lists-cli/schemas/L1.json''"
  "path_dirname ''/cfg/ml-agent/schemas/L1.json'' = ''/cfg/ml-agent/schemas''"
  by (simp_all add: getSchemaCachePath_def legacySchemaPath_def getCacheDir_def
        getLegacyCacheDir_def config_base_def sample_env_def path_join_def
        NEW_CACHE_DIR_def LEGACY_CACHE_DIR_def path_dirname_def)

lemma loadCachedSchema_files:
  "files (snd (loadCachedSchema e l w)) = files w"
  by (simp add: loadCachedSchema_eval split: stored.splits content.splits)

text \<open>
  C4. \<^verbatim>\<open>loadCachedSchema\<close> reads the canonical path first. A schema stored there is
  returned. A failure of that read other than ENOENT is thrown after that one read, and
  so is the error of a file that does not parse. On ENOENT it reads the legacy path: a
  schema stored there is returned, ENOENT there gives the "no schema" value without an
  error, and any other failure of the legacy read is thrown.
\<close>

theorem loadCachedSchema_two_paths:
  "(files w (getSchemaCachePath e l) = Holds (Doc s) \<longrightarrow>
      loadCachedSchema e l w =
        (Inr (Some s), w\<lparr>trace := trace w @ [CacheRead (getSchemaCachePath e l)]\<rparr>))
   \<and> (files w (getSchemaCachePath e l) = ReadFails err \<and> err_code err \<noteq> Some ''ENOENT'' \<longrightarrow>
      loadCachedSchema e l w =
        (Inl err, w\<lparr>trace := trace w @ [CacheRead (getSchemaCachePath e l)]\<rparr>))
   \<and> (files w (getSchemaCachePath e l) = Holds Malformed \<longrightarrow>
      loadCachedSchema e l w =
        (Inl syntax_error, w\<lparr>trace := trace w @ [CacheRead (getSchemaCachePath e l)]\<rparr>))
   \<and> (files w (getSchemaCachePath e l) = ReadFails err \<and> err_code err = Some ''ENOENT'' \<longrightarrow>
       (files w (legacySchemaPath e l) = Holds (Doc s) \<longrightarrow>
          loadCachedSchema e l w =
            (Inr (Some s),
             w\<lparr>trace := trace w @ [CacheRead (getSchemaCachePath e l),
                                    CacheRead (legacySchemaPath e l)]\<rparr>))
     \<and> (files w (legacySchemaPath e l) = ReadFails lerr \<and> err_code lerr = Some ''ENOENT'' \<longrightarrow>
          loadCachedSchema e l w =
            (Inr None,
             w\<lparr>trace := trace w @ [CacheRead (getSchemaCachePath e l),
                                    CacheRead (legacySchemaPath e l)]\<rparr>))
     \<and> (files w (legacySchemaPath e l) = ReadFails lerr \<and> err_code lerr \<noteq> Some ''ENOENT'' \<longrightarrow>
          loadCachedSchema e l w =
            (Inl lerr,
             w\<lparr>trace := trace w @ [CacheRead (getSchemaCachePath e l),
                                    CacheRead (legacySchemaPath e l)]\<rparr>))
     \<and> (files w (legacySchemaPath e l) = Holds Malformed \<longrightarrow>
          loadCachedSchema e l w =
            (Inl syntax_error,
             w\<lparr>trace := trace w @ [CacheRead (getSchemaCachePath e l),
                                    CacheRead (legacySchemaPath e l)]\<rparr>)))"
  by (simp add: loadCachedSchema_eval)

theorem loadCachedSchema_two_paths_witness:
  "loadCachedSchema sample_env ''L1'' legacy_only_world =
     (Inr (Some confirmed_schema),
      legacy_only_world\<lparr>trace := [CacheRead ''/cfg/ml-agent/schemas/L1.json'',
                                   CacheRead ''/cfg/slack-lists-cli/schemas/L1.json'']\<rparr>)
   \<and> loadCachedSchema sample_env ''L1'' (world_with empty_files no_service) =
     (Inr None,
      world_with empty_files no_service
        \<lparr>trace := [CacheRead ''/cfg/ml-agent/schemas/L1.json'',
                   CacheRead ''/cfg/slack-lists-cli/schemas/L1.json'']\<rparr>)
   \<and> loadCachedSchema sample_env ''L1'' (world_with locked_files no_service) =
     (Inl EACCES,
      world_with locked_files no_service\<lparr>trace := [CacheRead ''/cfg/ml-agent/schemas/L1.json'']\<rparr>)"
  using
    loadCachedSchema_two_paths [of legacy_only_world sample_env "''L1''" confirmed_schema ENOENT]
    loadCachedSchema_two_paths [of "world_with empty_files no_service" sample_env "''L1''" confirmed_schema ENOENT ENOENT]
    loadCachedSchema_two_paths [of "world_with locked_files no_service" sample_env "''L1''" confirmed_schema EACCES]
  by (simp add: sample_paths legacy_only_world_def world_with_def legacy_only_files_def
        empty_files_def locked_files_def ENOENT_def EACCES_def)

text \<open>
  C5, as the claim states it, fails: a schema found only at the legacy path is returned
  by the load, the canonical path is still absent afterwards, and the next load reads
  the legacy path again.
\<close>

theorem legacy_load_writes_nothing_counterexample:
  "files (snd (loadCachedSchema sample_env ''L1'' legacy_only_world))
       (getSchemaCachePath sample_env ''L1'') = ReadFails ENOENT
   \<and> trace (snd (loadCachedSchema sample_env ''L1''
                  (snd (loadCachedSchema sample_env ''L1'' legacy_only_world)))) =
       [CacheRead ''/cfg/ml-agent/schemas/L1.json'',
        CacheRead ''/cfg/slack-lists-cli/schemas/L1.json'',
        CacheRead ''/cfg/ml-agent/schemas/L1.json'',
        CacheRead ''/cfg/slack-lists-cli/schemas/L1.json'']"
  by (simp add: loadCachedSchema_eval sample_paths legacy_only_world_def world_with_def
        legacy_only_files_def ENOENT_def)

text \<open>
  C5, amended. \<^verbatim>\<open>loadCachedSchema\<close> never changes a file. When a schema is found
  only at the legacy path, it reaches the canonical path with the next
  \<^verbatim>\<open>updateSchemaCache\<close> whose directory creation and write succeed: that call
  returns the merge of the legacy schema and its candidate and stores it at the
  canonical path, and the load after it returns the merge from the canonical path
  alone.
\<close>

theorem legacy_upgrade_on_update:
  "files (snd (loadCachedSchema e l w)) = files w
   \<and> (files w (getSchemaCachePath e l) = ReadFails err \<and> err_code err = Some ''ENOENT''
      \<and> files w (legacySchemaPath e l) = Holds (Doc s)
      \<and> mkdir_failure w (path_dirname (getSchemaCachePath e l)) = None
      \<and> write_failure w (getSchemaCachePath e l) = None \<longrightarrow>
        fst (updateSchemaCache e l cand w) = Inr (mergeSchemas (Some s) cand)
      \<and> files (snd (updateSchemaCache e l cand w)) (getSchemaCachePath e l) =
          Holds (Doc (mergeSchemas (Some s) cand))
      \<and> loadCachedSchema e l (snd (updateSchemaCache e l cand w)) =
          (Inr (Some (mergeSchemas (Some s) cand)),
           (snd (updateSchemaCache e l cand w))
             \<lparr>trace := trace (snd (updateSchemaCache e l cand w))
                        @ [CacheRead (getSchemaCachePath e l)]\<rparr>))"
proof (intro conjI impI)
  show "files (snd (loadCachedSchema e l w)) = files w"
    by (rule loadCachedSchema_files)
next
  assume h: "files w (getSchemaCachePath e l) = ReadFails err \<and> err_code err = Some ''ENOENT''
      \<and> files w (legacySchemaPath e l) = Holds (Doc s)
      \<and> mkdir_failure w (path_dirname (getSchemaCachePath e l)) = None
      \<and> write_failure w (getSchemaCachePath e l) = None"
  let ?m = "mergeSchemas (Some s) cand"
  let ?p = "getSchemaCachePath e l"
  have u: "updateSchemaCache e l cand w =
      (Inr ?m,
       w\<lparr>trace := trace w @ [CacheRead ?p, CacheRead (legacySchemaPath e l),
                              CacheMkdir (path_dirname ?p), CacheWrite ?p ?m],
         files := (files w)(?p := Holds (Doc ?m))\<rparr>)"
    using h
    by (simp add: updateSchemaCache_def io_bind_def Let_def loadCachedSchema_eval
          saveSchemaCache_eval io_return_def)
  show "fst (updateSchemaCache e l cand w) = Inr ?m"
    by (simp add: u)
  show "files (snd (updateSchemaCache e l cand w)) ?p = Holds (Doc ?m)"
    by (simp add: u)
  show "loadCachedSchema e l (snd (updateSchemaCache e l cand w)) =
          (Inr (Some ?m),
           (snd (updateSchemaCache e l cand w))
             \<lparr>trace := trace (snd (updateSchemaCache e l cand w)) @ [CacheRead ?p]\<rparr>)"
    by (simp add: u loadCachedSchema_eval)
qed

theorem legacy_upgrade_on_update_witness:
  "files (snd (updateSchemaCache sample_env ''L1'' inferred_schema legacy_only_world))
      ''/cfg/ml-agent/schemas/L1.json'' =
     Holds (Doc \<lparr>list_id = ''L1'', columns = [status_column, owner_column]\<rparr>)"
  using legacy_upgrade_on_update [of sample_env "''L1''" legacy_only_world ENOENT confirmed_schema inferred_schema]
  by (simp add: sample_paths legacy_only_world_def world_with_def legacy_only_files_def
        ENOENT_def mergeSchemas_def confirmed_schema_def inferred_schema_def
        status_column_def owner_column_def conflicting_status_column_def)

subsection \<open>The resolver\<close>

lemma client_call_eval:
  "client_call m ps w =
     (map_sum id JObj (service w m ps), w\<lparr>trace := trace w @ [RemoteCall m ps]\<rparr>)"
  by (simp add: client_call_def io_bind_def emit_def)

lemma loadCachedSchema_lookup:
  "loadCachedSchema e l w =
     (fst (cache_lookup e l (files w)),
      w\<lparr>trace := trace w @ map CacheRead (snd (cache_lookup e l (files w)))\<rparr>)"
  by (simp add: loadCachedSchema_eval cache_lookup_def split: stored.splits content.splits)

lemma saveSchemaCache_ok:
  "can_save e l w \<Longrightarrow>
   saveSchemaCache e l s w =
     (Inr (), w\<lparr>trace := trace w @ save_events e l s,
                files := (files w)(getSchemaCachePath e l := Holds (Doc s))\<rparr>)"
  by (simp add: saveSchemaCache_eval can_save_def save_events_def)

lemma can_save_trace [simp]: "can_save e l (w\<lparr>trace := t\<rparr>) = can_save e l w"
  by (simp add: can_save_def)

lemma loadSchemaFromFile_eval:
  "loadSchemaFromFile p w =
     ((case files w p of
         ReadFails err \<Rightarrow> Inl err
       | Holds Malformed \<Rightarrow> Inl syntax_error
       | Holds (Doc s) \<Rightarrow> Inr s),
      w\<lparr>trace := trace w @ [SchemaFileRead p]\<rparr>)"
  by (simp add: loadSchemaFromFile_def io_bind_def emit_def fs_readFile_def JSON_parse_def
        io_throw_def io_return_def split: stored.splits content.splits)

lemma override_tier:
  assumes "resolveSchemaPath e sp = Some p" "p \<noteq> []"
  shows "resolveSchemaIndex D e l sp rc w =
     ((case files w p of
         ReadFails err \<Rightarrow> Inl err
       | Holds Malformed \<Rightarrow> Inl syntax_error
       | Holds (Doc s) \<Rightarrow> Inr (Some (buildSchemaIndex D s))),
      w\<lparr>trace := trace w @ [SchemaFileRead p]\<rparr>)"
  using assms
  by (simp add: resolveSchemaIndex_def present_def io_bind_def loadSchemaFromFile_eval
        io_return_def split: stored.splits content.splits)

lemma cache_tier_hit:
  assumes "\<not> rc" "cache_lookup e l (files w) = (Inr (Some c), reads)"
  shows "cache_tier D e l rc w =
     (Inr (Some (Some (buildSchemaIndex D c))), w\<lparr>trace := trace w @ map CacheRead reads\<rparr>)"
  using assms
  by (simp add: cache_tier_def io_bind_def loadCachedSchema_lookup io_return_def)

lemma cache_tier_miss:
  assumes "cache_misses e l rc w"
  shows "cache_tier D e l rc w = (Inr None, w\<lparr>trace := trace w @ cache_probe e l rc\<rparr>)"
  using assms
  by (auto simp: cache_tier_def io_bind_def loadCachedSchema_eval io_return_def
        cache_misses_def absent_def cache_probe_def split: stored.splits content.splits)

lemma describe_tier_success:
  assumes "service w ''slackLists.info'' [(''list_id'', JStr l)] = Inr result"
    "truthy (js_get (JObj result) ''ok'')"
    "normalizeSchema D (JObj result) = Inr s"
    "can_save e l w"
  shows "describe_tier D e l w =
     (Inr (Some (Some (buildSchemaIndex D s))),
      w\<lparr>trace := trace w @ info_call l # save_events e l s,
        files := (files w)(getSchemaCachePath e l := Holds (Doc s))\<rparr>)"
  using assms
  by (simp add: describe_tier_def io_catch_def io_bind_def client_call_eval io_lift_def
        saveSchemaCache_ok io_return_def info_call_def unsupported_falls_through_def)

lemma describe_tier_unavailable:
  assumes "describe_unavailable l w"
  shows "describe_tier D e l w = (Inr None, w\<lparr>trace := trace w @ [info_call l]\<rparr>)"
  using assms
  by (auto simp: describe_tier_def io_catch_def io_bind_def client_call_eval
        io_return_def info_call_def describe_unavailable_def io_throw_def
        unsupported_falls_through_def split: sum.splits)


lemma updateSchemaCache_ok:
  assumes "cache_lookup e l (files w) = (Inr cached, reads)" "can_save e l w"
  shows "updateSchemaCache e l s w =
     (Inr (mergeSchemas cached s),
      w\<lparr>trace := trace w @ map CacheRead reads @ save_events e l (mergeSchemas cached s),
        files := (files w)(getSchemaCachePath e l := Holds (Doc (mergeSchemas cached s)))\<rparr>)"
  using assms
  by (simp add: updateSchemaCache_def io_bind_def loadCachedSchema_lookup Let_def
        saveSchemaCache_ok io_return_def)

lemma metadata_probe_success:
  assumes "service w ''slackLists.items.info'' [(''list_id'', JStr l), (''id'', fid)] = Inr detail"
    "truthy (js_get (js_get (JObj detail) ''list'') ''list_metadata'')"
    "normalizeSchema D
       (JObj [(''list_metadata'', js_get (js_get (JObj detail) ''list'') ''list_metadata''),
              (''list_id'', js_coalesce (js_get (js_get (JObj detail) ''list'') ''id'') (JStr l))]) = Inr s"
    "can_save e l w"
  shows "metadata_probe D e l fid w =
     (Inr (Some (Some (buildSchemaIndex D s))),
      w\<lparr>trace := trace w @ items_info_call l fid # save_events e l s,
        files := (files w)(getSchemaCachePath e l := Holds (Doc s))\<rparr>)"
  using assms
  by (simp add: metadata_probe_def io_catch_def io_bind_def client_call_eval io_lift_def
        saveSchemaCache_ok io_return_def items_info_call_def Let_def)

lemma metadata_probe_failure:
  assumes "service w ''slackLists.items.info'' [(''list_id'', JStr l), (''id'', fid)] = Inl err"
  shows "metadata_probe D e l fid w =
     (if present (slackError err) \<and> slackError err \<noteq> Some ''unknown_method'' then Inl err
      else Inr None,
      w\<lparr>trace := trace w @ [items_info_call l fid]\<rparr>)"
  using assms
  by (simp add: metadata_probe_def io_catch_def io_bind_def client_call_eval
        io_return_def io_throw_def items_info_call_def)

lemma metadata_probe_passes:
  assumes "truthy fid" "probe_passes l fid w"
  shows "metadata_probe D e l fid w = (Inr None, w\<lparr>trace := trace w @ [items_info_call l fid]\<rparr>)"
  using assms
  by (auto simp: metadata_probe_def io_catch_def io_bind_def client_call_eval Let_def
        io_return_def io_throw_def items_info_call_def probe_passes_def present_def
        split: sum.splits)

lemma unsupported_falls_through_rethrows:
  "slackError err \<noteq> Some ''unknown_method'' \<Longrightarrow> unsupported_falls_through err w = (Inl err, w)"
  by (simp add: unsupported_falls_through_def io_throw_def)

lemma sample_tier_probe_found:
  assumes "service w ''slackLists.items.list'' [(''list_id'', JStr l), (''limit'', JNum (Finite 100))] = Inr ir"
    "truthy (first_item_id (items_of (JObj ir)))"
    "metadata_probe D e l (first_item_id (items_of (JObj ir)))
        (w\<lparr>trace := trace w @ [items_list_call l]\<rparr>) = (Inr (Some r), w')"
  shows "sample_tier D e l w = (Inr (Some r), w')"
  using assms
  by (simp add: sample_tier_def io_catch_def io_bind_def client_call_eval Let_def
        io_return_def items_list_call_def)

lemma sample_tier_probe_fatal:
  assumes "service w ''slackLists.items.list'' [(''list_id'', JStr l), (''limit'', JNum (Finite 100))] = Inr ir"
    "truthy (first_item_id (items_of (JObj ir)))"
    "metadata_probe D e l (first_item_id (items_of (JObj ir)))
        (w\<lparr>trace := trace w @ [items_list_call l]\<rparr>) = (Inl err, w')"
    "slackError err \<noteq> Some ''unknown_method''"
  shows "sample_tier D e l w = (Inl err, w')"
  using assms
  by (simp add: sample_tier_def io_catch_def io_bind_def client_call_eval Let_def
        io_return_def items_list_call_def unsupported_falls_through_rethrows)

lemma sample_tier_to_inference:
  assumes "service w ''slackLists.items.list'' [(''list_id'', JStr l), (''limit'', JNum (Finite 100))] = Inr ir"
    "(if truthy (first_item_id (items_of (JObj ir)))
      then metadata_probe D e l (first_item_id (items_of (JObj ir)))
      else io_return None) (w\<lparr>trace := trace w @ [items_list_call l]\<rparr>) = (Inr None, w')"
  shows "sample_tier D e l w =
           io_catch (infer_and_merge D e l (items_of (JObj ir))) unsupported_falls_through w'"
  using assms
  by (simp add: sample_tier_def io_catch_def io_bind_def client_call_eval Let_def
        io_return_def items_list_call_def split: if_splits)

lemma resolve_past_describe:
  assumes "\<not> present (resolveSchemaPath e sp)" "cache_misses e l rc w" "describe_unavailable l w"
  shows "resolveSchemaIndex D e l sp rc w =
     io_bind (sample_tier D e l) (\<lambda>r4. case r4 of Some r \<Rightarrow> io_return r | None \<Rightarrow> io_return None)
       (w\<lparr>trace := trace w @ cache_probe e l rc @ [info_call l]\<rparr>)"
proof -
  have d: "describe_unavailable l (w\<lparr>trace := trace w @ cache_probe e l rc\<rparr>)"
    using assms(3) by (simp add: describe_unavailable_def)
  show ?thesis
    using assms(1)
    by (simp add: resolveSchemaIndex_def Let_def io_bind_def cache_tier_miss[OF assms(2)]
          describe_tier_unavailable[OF d] io_return_def)
qed

lemma past_describe_frames [simp]:
  "probe_passes l fid (w\<lparr>trace := t\<rparr>) = probe_passes l fid w"
  "describe_unavailable l (w\<lparr>trace := t\<rparr>) = describe_unavailable l w"
  "cache_misses e l rc (w\<lparr>trace := t\<rparr>) = cache_misses e l rc w"
  by (simp_all add: probe_passes_def describe_unavailable_def cache_misses_def absent_def)

lemma resolve_to_inference:
  assumes "\<not> present (resolveSchemaPath e sp)" "cache_misses e l rc w" "describe_unavailable l w"
    "service w ''slackLists.items.list'' [(''list_id'', JStr l), (''limit'', JNum (Finite 100))] = Inr ir"
    "(if truthy (first_item_id (items_of (JObj ir)))
      then metadata_probe D e l (first_item_id (items_of (JObj ir)))
      else io_return None)
       (w\<lparr>trace := trace w @ cache_probe e l rc @ [info_call l, items_list_call l]\<rparr>) = (Inr None, w')"
  shows "resolveSchemaIndex D e l sp rc w = from_inference D e l (items_of (JObj ir)) w'"
proof -
  let ?w1 = "w\<lparr>trace := trace w @ cache_probe e l rc @ [info_call l]\<rparr>"
  have s: "service ?w1 ''slackLists.items.list'' [(''list_id'', JStr l), (''limit'', JNum (Finite 100))] = Inr ir"
    using assms(4) by simp
  have p: "(if truthy (first_item_id (items_of (JObj ir)))
      then metadata_probe D e l (first_item_id (items_of (JObj ir)))
      else io_return None) (?w1\<lparr>trace := trace ?w1 @ [items_list_call l]\<rparr>) = (Inr None, w')"
    using assms(5) by simp
  show ?thesis
    unfolding resolve_past_describe[OF assms(1-3)] from_inference_def
    by (simp add: io_bind_def sample_tier_to_inference[OF s p])
qed

lemma resolve_after_probe_failure:
  "\<not> present (resolveSchemaPath e sp) \<and> cache_misses e l rc w \<and> describe_unavailable l w
   \<and> service w ''slackLists.items.list'' [(''list_id'', JStr l), (''limit'', JNum (Finite 100))] = Inr ir
   \<and> truthy (first_item_id (items_of (JObj ir)))
   \<and> service w ''slackLists.items.info''
        [(''list_id'', JStr l), (''id'', first_item_id (items_of (JObj ir)))] = Inl err
   \<longrightarrow>
     resolveSchemaIndex D e l sp rc w =
       (if present (slackError err) \<and> slackError err \<noteq> Some ''unknown_method''
        then (Inl err,
              w\<lparr>trace := trace w @ cache_probe e l rc @
                    [info_call l, items_list_call l,
                     items_info_call l (first_item_id (items_of (JObj ir)))]\<rparr>)
        else from_inference D e l (items_of (JObj ir))
              (w\<lparr>trace := trace w @ cache_probe e l rc @
                    [info_call l, items_list_call l,
                     items_info_call l (first_item_id (items_of (JObj ir)))]\<rparr>))"
proof (intro impI, elim conjE)
  let ?fid = "first_item_id (items_of (JObj ir))"
  let ?w1 = "w\<lparr>trace := trace w @ cache_probe e l rc @ [info_call l]\<rparr>"
  let ?w2 = "w\<lparr>trace := trace w @ cache_probe e l rc @ [info_call l, items_list_call l]\<rparr>"
  let ?w3 = "w\<lparr>trace := trace w @ cache_probe e l rc @
                    [info_call l, items_list_call l, items_info_call l ?fid]\<rparr>"
  assume h: "\<not> present (resolveSchemaPath e sp)" "cache_misses e l rc w" "describe_unavailable l w"
    "service w ''slackLists.items.list'' [(''list_id'', JStr l), (''limit'', JNum (Finite 100))] = Inr ir"
    "truthy ?fid"
    "service w ''slackLists.items.info'' [(''list_id'', JStr l), (''id'', ?fid)] = Inl err"
  have d: "service ?w2 ''slackLists.items.info'' [(''list_id'', JStr l), (''id'', ?fid)] = Inl err"
    using h(6) by simp
  have probe: "metadata_probe D e l ?fid ?w2 =
     (if present (slackError err) \<and> slackError err \<noteq> Some ''unknown_method'' then Inl err
      else Inr None, ?w3)"
    by (simp add: metadata_probe_failure[OF d])
  show "resolveSchemaIndex D e l sp rc w =
       (if present (slackError err) \<and> slackError err \<noteq> Some ''unknown_method''
        then (Inl err, ?w3) else from_inference D e l (items_of (JObj ir)) ?w3)"
  proof (cases "present (slackError err) \<and> slackError err \<noteq> Some ''unknown_method''")
    case True
    have s: "service ?w1 ''slackLists.items.list'' [(''list_id'', JStr l), (''limit'', JNum (Finite 100))] = Inr ir"
      using h(4) by simp
    have p: "metadata_probe D e l ?fid (?w1\<lparr>trace := trace ?w1 @ [items_list_call l]\<rparr>) = (Inl err, ?w3)"
      using probe True by simp
    have "sample_tier D e l ?w1 = (Inl err, ?w3)"
      using True by (intro sample_tier_probe_fatal[OF s h(5) p]) simp
    then show ?thesis
      using True by (simp add: resolve_past_describe[OF h(1-3)] io_bind_def)
  next
    case False
    have p: "(if truthy ?fid then metadata_probe D e l ?fid else io_return None) ?w2 = (Inr None, ?w3)"
      using probe False h(5) by auto
    have "resolveSchemaIndex D e l sp rc w = from_inference D e l (items_of (JObj ir)) ?w3"
      by (rule resolve_to_inference[OF h(1-4) p])
    then show ?thesis
      by (simp only: if_not_P[OF False])
  qed
qed

lemma resolve_inference_outcome:
  "\<not> present (resolveSchemaPath e sp) \<and> cache_misses e l rc w \<and> describe_unavailable l w
   \<and> service w ''slackLists.items.list'' [(''list_id'', JStr l), (''limit'', JNum (Finite 100))] = Inr ir
   \<and> probe_passes l (first_item_id (items_of (JObj ir))) w
   \<and> inferSchemaFromItems D l (items_of (JObj ir)) = Inr inferred
   \<longrightarrow>
     (columns inferred = [] \<longrightarrow>
        resolveSchemaIndex D e l sp rc w =
          (Inr None,
           w\<lparr>trace := trace w @ cache_probe e l rc @ [info_call l, items_list_call l]
                      @ probe_events l (first_item_id (items_of (JObj ir)))\<rparr>))
   \<and> (columns inferred \<noteq> []
        \<and> updateSchemaCache e l inferred
            (w\<lparr>trace := trace w @ cache_probe e l rc @ [info_call l, items_list_call l]
                      @ probe_events l (first_item_id (items_of (JObj ir)))\<rparr>) = (Inr merged, w')
        \<longrightarrow>
        resolveSchemaIndex D e l sp rc w = (Inr (Some (buildSchemaIndex D merged)), w'))"
proof (intro impI, elim conjE)
  let ?fid = "first_item_id (items_of (JObj ir))"
  let ?w2 = "w\<lparr>trace := trace w @ cache_probe e l rc @ [info_call l, items_list_call l]\<rparr>"
  let ?w3 = "w\<lparr>trace := trace w @ cache_probe e l rc @ [info_call l, items_list_call l]
                      @ probe_events l ?fid\<rparr>"
  assume h: "\<not> present (resolveSchemaPath e sp)" "cache_misses e l rc w" "describe_unavailable l w"
    "service w ''slackLists.items.list'' [(''list_id'', JStr l), (''limit'', JNum (Finite 100))] = Inr ir"
    "probe_passes l ?fid w"
    "inferSchemaFromItems D l (items_of (JObj ir)) = Inr inferred"
  have p: "(if truthy ?fid then metadata_probe D e l ?fid else io_return None) ?w2 = (Inr None, ?w3)"
  proof (cases "truthy ?fid")
    case True
    have "probe_passes l ?fid ?w2" using h(5) by simp
    from metadata_probe_passes[OF True this] True show ?thesis
      by (simp add: probe_events_def)
  next
    case False
    then show ?thesis by (simp add: io_return_def probe_events_def)
  qed
  have r: "resolveSchemaIndex D e l sp rc w = from_inference D e l (items_of (JObj ir)) ?w3"
    by (rule resolve_to_inference[OF h(1-4) p])
  show "(columns inferred = [] \<longrightarrow> resolveSchemaIndex D e l sp rc w = (Inr None, ?w3))
   \<and> (columns inferred \<noteq> [] \<and> updateSchemaCache e l inferred ?w3 = (Inr merged, w')
        \<longrightarrow> resolveSchemaIndex D e l sp rc w = (Inr (Some (buildSchemaIndex D merged)), w'))"
    unfolding r
    by (simp add: from_inference_def infer_and_merge_def io_bind_def io_catch_def io_lift_def
          h(6) io_return_def)
qed


lemma from_inference_merged:
  assumes "inferSchemaFromItems D l items = Inr inferred" "columns inferred \<noteq> []"
    "cache_lookup e l (files w) = (Inr cached, reads)" "can_save e l w"
  shows "from_inference D e l items w =
     (Inr (Some (buildSchemaIndex D (mergeSchemas cached inferred))),
      w\<lparr>trace := trace w @ map CacheRead reads @ save_events e l (mergeSchemas cached inferred),
        files := (files w)(getSchemaCachePath e l := Holds (Doc (mergeSchemas cached inferred)))\<rparr>)"
  using assms
  by (simp add: from_inference_def infer_and_merge_def io_bind_def io_catch_def io_lift_def
        updateSchemaCache_ok io_return_def)

lemma sample_answers:
  "items_of (JObj (items_response xs)) = xs"
  "first_item_id [sample_item] = JStr ''I1''"
  "first_item_id (sample_item # xs) = JStr ''I1''"
  "first_item_id [bare_item] = JStr ''I2''"
  "first_item_id [] = JUndefined"
  by (simp_all add: items_of_def items_response_def js_coalesce_def nullish_def
        first_item_id_def sample_item_def bare_item_def)

lemma sample_world_facts:
  "cache_misses sample_env ''L1'' False (world_with empty_files srv)"
  "can_save sample_env ''L1'' (world_with fs srv)"
  "cache_lookup sample_env ''L1'' empty_files =
     (Inr None, [''/cfg/ml-agent/schemas/L1.json'', ''/cfg/slack-lists-cli/schemas/L1.json''])"
  "cache_lookup sample_env ''L1'' cached_files =
     (Inr (Some confirmed_schema), [''/cfg/ml-agent/schemas/L1.json''])"
  "cache_probe sample_env ''L1'' False =
     [CacheRead ''/cfg/ml-agent/schemas/L1.json'', CacheRead ''/cfg/slack-lists-cli/schemas/L1.json'']"
  "save_events sample_env ''L1'' s =
     [CacheMkdir ''/cfg/ml-agent/schemas'', CacheWrite ''/cfg/ml-agent/schemas/L1.json'' s]"
  by (simp_all add: cache_misses_def absent_def world_with_def empty_files_def ENOENT_def
        can_save_def cache_lookup_def sample_paths cached_files_def cache_probe_def
        save_events_def)

lemma sample_world_fields:
  "files (world_with fs srv) = fs"
  "service (world_with fs srv) = srv"
  "trace (world_with fs srv) = []"
  "resolveSchemaPath sample_env None = None"
  "present None = False"
  "slackError unsupported = Some ''unknown_method''"
  "slackError ratelimited = Some ''ratelimited''"
  "slackError ECONNRESET = None"
  by (simp_all add: world_with_def resolveSchemaPath_def sample_env_def present_def
        slackError_def unsupported_def ratelimited_def ECONNRESET_def)

lemma sample_inference:
  "inferSchemaFromItems sample_deps l [sample_item] = Inr \<lparr>list_id = l, columns = [conflicting_status_column, owner_column]\<rparr>"
  "inferSchemaFromItems sample_deps l [bare_item] = Inr \<lparr>list_id = l, columns = []\<rparr>"
  "inferSchemaFromItems sample_deps l [] = Inr \<lparr>list_id = l, columns = []\<rparr>"
  "buildSchemaIndex sample_deps s = s"
  "normalizeSchema sample_deps raw = Inr confirmed_schema"
  by (simp_all add: sample_deps_def sample_item_def bare_item_def)

lemma saveSchemaCache_write_fails:
  assumes "mkdir_failure w (path_dirname (getSchemaCachePath e l)) = None"
    "write_failure w (getSchemaCachePath e l) = Some err"
  shows "saveSchemaCache e l s w = (Inl err, w\<lparr>trace := trace w @ save_events e l s\<rparr>)"
  using assms by (simp add: saveSchemaCache_eval save_events_def)

lemma describe_tier_fatal:
  assumes "service w ''slackLists.info'' [(''list_id'', JStr l)] = Inl err"
    "slackError err \<noteq> Some ''unknown_method''"
  shows "describe_tier D e l w = (Inl err, w\<lparr>trace := trace w @ [info_call l]\<rparr>)"
  using assms
  by (simp add: describe_tier_def io_catch_def io_bind_def client_call_eval info_call_def
        unsupported_falls_through_rethrows)

lemma describe_tier_save_fails:
  assumes "service w ''slackLists.info'' [(''list_id'', JStr l)] = Inr result"
    "truthy (js_get (JObj result) ''ok'')"
    "normalizeSchema D (JObj result) = Inr s"
    "mkdir_failure w (path_dirname (getSchemaCachePath e l)) = None"
    "write_failure w (getSchemaCachePath e l) = Some err"
    "slackError err \<noteq> Some ''unknown_method''"
  shows "describe_tier D e l w =
     (Inl err, w\<lparr>trace := trace w @ info_call l # save_events e l s\<rparr>)"
  using assms
  by (simp add: describe_tier_def io_catch_def io_bind_def client_call_eval io_lift_def
        saveSchemaCache_write_fails info_call_def unsupported_falls_through_rethrows)

lemma resolve_describe_fatal:
  assumes "\<not> present (resolveSchemaPath e sp)" "cache_misses e l rc w"
    "describe_tier D e l (w\<lparr>trace := trace w @ cache_probe e l rc\<rparr>) = (Inl err, w')"
  shows "resolveSchemaIndex D e l sp rc w = (Inl err, w')"
  using assms(1)
  by (simp add: resolveSchemaIndex_def Let_def io_bind_def cache_tier_miss[OF assms(2)] assms(3))

lemma metadata_probe_save_fails:
  assumes "service w ''slackLists.items.info'' [(''list_id'', JStr l), (''id'', fid)] = Inr detail"
    "truthy (js_get (js_get (JObj detail) ''list'') ''list_metadata'')"
    "normalizeSchema D
       (JObj [(''list_metadata'', js_get (js_get (JObj detail) ''list'') ''list_metadata''),
              (''list_id'', js_coalesce (js_get (js_get (JObj detail) ''list'') ''id'') (JStr l))]) = Inr s"
    "mkdir_failure w (path_dirname (getSchemaCachePath e l)) = None"
    "write_failure w (getSchemaCachePath e l) = Some err"
  shows "metadata_probe D e l fid w =
     (if present (slackError err) \<and> slackError err \<noteq> Some ''unknown_method'' then Inl err
      else Inr None,
      w\<lparr>trace := trace w @ items_info_call l fid # save_events e l s\<rparr>)"
  using assms
  by (simp add: metadata_probe_def io_catch_def io_bind_def client_call_eval io_lift_def
        saveSchemaCache_write_fails io_return_def io_throw_def items_info_call_def Let_def)

lemma from_inference_empty:
  assumes "inferSchemaFromItems D l items = Inr inferred" "columns inferred = []"
  shows "from_inference D e l items w = (Inr None, w)"
  using assms
  by (simp add: from_inference_def infer_and_merge_def io_bind_def io_catch_def io_lift_def
        io_return_def)

lemma unwritable_world_fields:
  "files (unwritable_world srv) = empty_files"
  "service (unwritable_world srv) = srv"
  "trace (unwritable_world srv) = []"
  "mkdir_failure (unwritable_world srv) d = None"
  "write_failure (unwritable_world srv) p = Some EACCES"
  "slackError EACCES = None"
  "cache_misses sample_env ''L1'' False (unwritable_world srv)"
  by (simp_all add: unwritable_world_def slackError_def EACCES_def cache_misses_def absent_def
        empty_files_def ENOENT_def)

text \<open>
  C3. The claim: in tier 4 only unknown_method falls through, every other failure of
  the detail call is fatal. The code at a failing input: the detail call for the first
  item breaks off with a connection error, which carries no service error code; the
  resolver does not throw it but goes on to the inference and returns the inferred
  schema. The same error from the describe call of tier 3 is thrown to the caller.
\<close>

theorem detail_failure_without_code_is_swallowed:
  "service (world_with empty_files (sample_service (Inl unsupported) [sample_item] (Inl ECONNRESET)))
      ''slackLists.items.info'' [(''list_id'', JStr ''L1''), (''id'', JStr ''I1'')] = Inl ECONNRESET
   \<and> slackError ECONNRESET = None
   \<and> fst (resolveSchemaIndex sample_deps sample_env ''L1'' None False
      (world_with empty_files (sample_service (Inl unsupported) [sample_item] (Inl ECONNRESET)))) =
     Inr (Some inferred_schema)
   \<and> fst (resolveSchemaIndex sample_deps sample_env ''L1'' None False
      (world_with empty_files (sample_service (Inl ECONNRESET) [sample_item] (Inl unsupported)))) =
     Inl ECONNRESET"
proof -
  let ?w = "world_with empty_files (sample_service (Inl unsupported) [sample_item] (Inl ECONNRESET))"
  let ?v = "world_with empty_files (sample_service (Inl ECONNRESET) [sample_item] (Inl unsupported))"
  have b: "resolveSchemaIndex sample_deps sample_env ''L1'' None False ?w =
     from_inference sample_deps sample_env ''L1'' [sample_item]
       (?w\<lparr>trace := [CacheRead ''/cfg/ml-agent/schemas/L1.json'',
                   CacheRead ''/cfg/slack-lists-cli/schemas/L1.json'',
                   info_call ''L1'', items_list_call ''L1'', items_info_call ''L1'' (JStr ''I1'')]\<rparr>)"
    using resolve_after_probe_failure [of sample_env None "''L1''" False ?w
        "items_response [sample_item]" ECONNRESET sample_deps]
    by (simp add: sample_answers sample_world_facts sample_world_fields
          present_def describe_unavailable_def sample_service_def)
  have c: "fst (from_inference sample_deps sample_env ''L1'' [sample_item]
       (?w\<lparr>trace := t\<rparr>)) = Inr (Some inferred_schema)" for t
    by (subst from_inference_merged[where inferred = inferred_schema and cached = None
          and reads = "[''/cfg/ml-agent/schemas/L1.json'', ''/cfg/slack-lists-cli/schemas/L1.json'']"])
       (simp_all add: sample_inference inferred_schema_def sample_world_facts
          sample_world_fields can_save_def world_with_def mergeSchemas_def)
  have d: "describe_tier sample_deps sample_env ''L1''
             (?v\<lparr>trace := trace ?v @ cache_probe sample_env ''L1'' False\<rparr>) =
           (Inl ECONNRESET,
            ?v\<lparr>trace := trace ?v @ cache_probe sample_env ''L1'' False @ [info_call ''L1'']\<rparr>)"
    by (subst describe_tier_fatal[where err = ECONNRESET])
       (simp_all add: sample_world_fields sample_service_def)
  have e: "fst (resolveSchemaIndex sample_deps sample_env ''L1'' None False ?v) = Inl ECONNRESET"
    by (subst resolve_describe_fatal[OF _ _ d])
       (simp_all add: sample_world_fields sample_world_facts)
  show ?thesis using b c e
    by (simp add: sample_world_fields sample_service_def)
qed

lemma resolve_cache_hit:
  assumes "\<not> present (resolveSchemaPath e sp)" "\<not> rc"
    "cache_lookup e l (files w) = (Inr (Some c), reads)"
  shows "resolveSchemaIndex D e l sp rc w =
     (Inr (Some (buildSchemaIndex D c)), w\<lparr>trace := trace w @ map CacheRead reads\<rparr>)"
  using assms(1)
  by (simp add: resolveSchemaIndex_def Let_def io_bind_def cache_tier_hit[OF assms(2,3)]
        io_return_def)

lemma resolve_describe_success:
  assumes "\<not> present (resolveSchemaPath e sp)" "cache_misses e l rc w"
    "service w ''slackLists.info'' [(''list_id'', JStr l)] = Inr result"
    "truthy (js_get (JObj result) ''ok'')"
    "normalizeSchema D (JObj result) = Inr s"
    "can_save e l w"
  shows "resolveSchemaIndex D e l sp rc w =
     (Inr (Some (buildSchemaIndex D s)),
      w\<lparr>trace := trace w @ cache_probe e l rc @ info_call l # save_events e l s,
        files := (files w)(getSchemaCachePath e l := Holds (Doc s))\<rparr>)"
proof -
  let ?w1 = "w\<lparr>trace := trace w @ cache_probe e l rc\<rparr>"
  have d: "describe_tier D e l ?w1 =
     (Inr (Some (Some (buildSchemaIndex D s))),
      ?w1\<lparr>trace := trace ?w1 @ info_call l # save_events e l s,
        files := (files ?w1)(getSchemaCachePath e l := Holds (Doc s))\<rparr>)"
    using assms(3-6) by (intro describe_tier_success) simp_all
  show ?thesis
    using assms(1)
    by (simp add: resolveSchemaIndex_def Let_def io_bind_def cache_tier_miss[OF assms(2)]
          d io_return_def)
qed

lemma resolve_probe_success:
  assumes "\<not> present (resolveSchemaPath e sp)" "cache_misses e l rc w" "describe_unavailable l w"
    "service w ''slackLists.items.list'' [(''list_id'', JStr l), (''limit'', JNum (Finite 100))] = Inr ir"
    "truthy (first_item_id (items_of (JObj ir)))"
    "service w ''slackLists.items.info''
        [(''list_id'', JStr l), (''id'', first_item_id (items_of (JObj ir)))] = Inr detail"
    "truthy (js_get (js_get (JObj detail) ''list'') ''list_metadata'')"
    "normalizeSchema D
       (JObj [(''list_metadata'', js_get (js_get (JObj detail) ''list'') ''list_metadata''),
              (''list_id'', js_coalesce (js_get (js_get (JObj detail) ''list'') ''id'') (JStr l))]) = Inr s"
    "can_save e l w"
  shows "resolveSchemaIndex D e l sp rc w =
     (Inr (Some (buildSchemaIndex D s)),
      w\<lparr>trace := trace w @ cache_probe e l rc @
                [info_call l, items_list_call l,
                 items_info_call l (first_item_id (items_of (JObj ir)))] @ save_events e l s,
        files := (files w)(getSchemaCachePath e l := Holds (Doc s))\<rparr>)"
proof -
  let ?fid = "first_item_id (items_of (JObj ir))"
  let ?w1 = "w\<lparr>trace := trace w @ cache_probe e l rc @ [info_call l]\<rparr>"
  let ?w2 = "?w1\<lparr>trace := trace ?w1 @ [items_list_call l]\<rparr>"
  let ?w' = "w\<lparr>trace := trace w @ cache_probe e l rc @
                [info_call l, items_list_call l, items_info_call l ?fid] @ save_events e l s,
        files := (files w)(getSchemaCachePath e l := Holds (Doc s))\<rparr>"
  have s: "service ?w1 ''slackLists.items.list'' [(''list_id'', JStr l), (''limit'', JNum (Finite 100))] = Inr ir"
    using assms(4) by simp
  have "metadata_probe D e l ?fid ?w2 =
     (Inr (Some (Some (buildSchemaIndex D s))),
      ?w2\<lparr>trace := trace ?w2 @ items_info_call l ?fid # save_events e l s,
        files := (files ?w2)(getSchemaCachePath e l := Holds (Doc s))\<rparr>)"
    using assms(6-9) by (intro metadata_probe_success) simp_all
  then have p: "metadata_probe D e l ?fid ?w2 = (Inr (Some (Some (buildSchemaIndex D s))), ?w')"
    by simp
  have "sample_tier D e l ?w1 = (Inr (Some (Some (buildSchemaIndex D s))), ?w')"
    by (rule sample_tier_probe_found[OF s assms(5) p])
  then show ?thesis
    by (simp add: resolve_past_describe[OF assms(1-3)] io_bind_def io_return_def)
qed

lemma resolve_inferred:
  assumes "\<not> present (resolveSchemaPath e sp)" "cache_misses e l rc w" "describe_unavailable l w"
    "service w ''slackLists.items.list'' [(''list_id'', JStr l), (''limit'', JNum (Finite 100))] = Inr ir"
    "probe_passes l (first_item_id (items_of (JObj ir))) w"
    "inferSchemaFromItems D l (items_of (JObj ir)) = Inr inferred"
    "columns inferred \<noteq> []"
    "cache_lookup e l (files w) = (Inr cached, reads)"
    "can_save e l w"
  shows "resolveSchemaIndex D e l sp rc w =
     (Inr (Some (buildSchemaIndex D (mergeSchemas cached inferred))),
      w\<lparr>trace := trace w @ cache_probe e l rc @ [info_call l, items_list_call l]
                 @ probe_events l (first_item_id (items_of (JObj ir)))
                 @ map CacheRead reads @ save_events e l (mergeSchemas cached inferred),
        files := (files w)(getSchemaCachePath e l := Holds (Doc (mergeSchemas cached inferred)))\<rparr>)"
proof -
  let ?w3 = "w\<lparr>trace := trace w @ cache_probe e l rc @ [info_call l, items_list_call l]
                      @ probe_events l (first_item_id (items_of (JObj ir)))\<rparr>"
  have u: "updateSchemaCache e l inferred ?w3 =
     (Inr (mergeSchemas cached inferred),
      ?w3\<lparr>trace := trace ?w3 @ map CacheRead reads @ save_events e l (mergeSchemas cached inferred),
        files := (files ?w3)(getSchemaCachePath e l := Holds (Doc (mergeSchemas cached inferred)))\<rparr>)"
    using assms(8,9) by (intro updateSchemaCache_ok) simp_all
  from resolve_inference_outcome[of e sp l rc w ir D inferred "mergeSchemas cached inferred"]
    assms(1-7) u
  show ?thesis by simp
qed

text \<open>
  C7. Once control reaches the inference (no override path, a cache miss, no schema
  from the describe call, items listed, the probe of the first item skipped or passed
  by), a schema inferred with zero columns makes the resolver return the "no schema"
  value without an error, with no cache event and no file changed. A schema with at
  least one column goes through \<^verbatim>\<open>updateSchemaCache\<close>: when the cache can be read
  and saved, that call reads the cache, stores the merge of the cached schema and the
  inferred one at the canonical path and returns it, and the resolver returns the index
  of that merge in the world the update leaves.
\<close>

theorem zero_columns_soft_failure:
  "\<not> present (resolveSchemaPath e sp) \<and> cache_misses e l rc w \<and> describe_unavailable l w
   \<and> service w ''slackLists.items.list'' [(''list_id'', JStr l), (''limit'', JNum (Finite 100))] = Inr ir
   \<and> probe_passes l (first_item_id (items_of (JObj ir))) w
   \<and> inferSchemaFromItems D l (items_of (JObj ir)) = Inr inferred
   \<longrightarrow>
     (columns inferred = [] \<longrightarrow>
        resolveSchemaIndex D e l sp rc w =
          (Inr None,
           w\<lparr>trace := trace w @ cache_probe e l rc @ [info_call l, items_list_call l]
                      @ probe_events l (first_item_id (items_of (JObj ir)))\<rparr>))
   \<and> (columns inferred \<noteq> [] \<and> cache_lookup e l (files w) = (Inr cached, reads)
        \<and> can_save e l w \<longrightarrow>
        updateSchemaCache e l inferred
           (w\<lparr>trace := trace w @ cache_probe e l rc @ [info_call l, items_list_call l]
                      @ probe_events l (first_item_id (items_of (JObj ir)))\<rparr>) =
          (Inr (mergeSchemas cached inferred),
           w\<lparr>trace := trace w @ cache_probe e l rc @ [info_call l, items_list_call l]
                      @ probe_events l (first_item_id (items_of (JObj ir)))
                      @ map CacheRead reads @ save_events e l (mergeSchemas cached inferred),
             files := (files w)(getSchemaCachePath e l :=
                         Holds (Doc (mergeSchemas cached inferred)))\<rparr>)
        \<and> resolveSchemaIndex D e l sp rc w =
          (Inr (Some (buildSchemaIndex D (mergeSchemas cached inferred))),
           w\<lparr>trace := trace w @ cache_probe e l rc @ [info_call l, items_list_call l]
                      @ probe_events l (first_item_id (items_of (JObj ir)))
                      @ map CacheRead reads @ save_events e l (mergeSchemas cached inferred),
             files := (files w)(getSchemaCachePath e l :=
                         Holds (Doc (mergeSchemas cached inferred)))\<rparr>))"
proof (intro impI conjI; elim conjE)
  let ?w3 = "w\<lparr>trace := trace w @ cache_probe e l rc @ [info_call l, items_list_call l]
                      @ probe_events l (first_item_id (items_of (JObj ir)))\<rparr>"
  assume h: "\<not> present (resolveSchemaPath e sp)" "cache_misses e l rc w" "describe_unavailable l w"
    "service w ''slackLists.items.list'' [(''list_id'', JStr l), (''limit'', JNum (Finite 100))] = Inr ir"
    "probe_passes l (first_item_id (items_of (JObj ir))) w"
    "inferSchemaFromItems D l (items_of (JObj ir)) = Inr inferred"
  {
    assume "columns inferred = []"
    with resolve_inference_outcome[of e sp l rc w ir D inferred] h
    show "resolveSchemaIndex D e l sp rc w = (Inr None, ?w3)" by simp
  }
  {
    assume c: "columns inferred \<noteq> []" "cache_lookup e l (files w) = (Inr cached, reads)"
      "can_save e l w"
    show "updateSchemaCache e l inferred ?w3 =
          (Inr (mergeSchemas cached inferred),
           w\<lparr>trace := trace w @ cache_probe e l rc @ [info_call l, items_list_call l]
                      @ probe_events l (first_item_id (items_of (JObj ir)))
                      @ map CacheRead reads @ save_events e l (mergeSchemas cached inferred),
             files := (files w)(getSchemaCachePath e l :=
                         Holds (Doc (mergeSchemas cached inferred)))\<rparr>)"
      using c(2,3) by (subst updateSchemaCache_ok[where cached = cached and reads = reads]) simp_all
    show "resolveSchemaIndex D e l sp rc w =
          (Inr (Some (buildSchemaIndex D (mergeSchemas cached inferred))),
           w\<lparr>trace := trace w @ cache_probe e l rc @ [info_call l, items_list_call l]
                      @ probe_events l (first_item_id (items_of (JObj ir)))
                      @ map CacheRead reads @ save_events e l (mergeSchemas cached inferred),
             files := (files w)(getSchemaCachePath e l :=
                         Holds (Doc (mergeSchemas cached inferred)))\<rparr>)"
      by (rule resolve_inferred[OF h c])
  }
qed


theorem zero_columns_soft_failure_witness:
  "resolveSchemaIndex sample_deps sample_env ''L1'' None False
      (world_with empty_files (sample_service (Inl unsupported) [bare_item] (Inl unsupported))) =
     (Inr None,
      world_with empty_files (sample_service (Inl unsupported) [bare_item] (Inl unsupported))
        \<lparr>trace := [CacheRead ''/cfg/ml-agent/schemas/L1.json'',
                   CacheRead ''/cfg/slack-lists-cli/schemas/L1.json'',
                   info_call ''L1'', items_list_call ''L1'', items_info_call ''L1'' (JStr ''I2'')]\<rparr>)
   \<and> resolveSchemaIndex sample_deps sample_env ''L1'' None True
      (world_with cached_files (sample_service (Inl unsupported) [sample_item] (Inl unsupported))) =
     (Inr (Some \<lparr>list_id = ''L1'', columns = [status_column, owner_column]\<rparr>),
      world_with cached_files (sample_service (Inl unsupported) [sample_item] (Inl unsupported))
        \<lparr>trace := [info_call ''L1'', items_list_call ''L1'', items_info_call ''L1'' (JStr ''I1''),
                   CacheRead ''/cfg/ml-agent/schemas/L1.json'',
                   CacheMkdir ''/cfg/ml-agent/schemas'',
                   CacheWrite ''/cfg/ml-agent/schemas/L1.json''
                     \<lparr>list_id = ''L1'', columns = [status_column, owner_column]\<rparr>],
          files := cached_files(''/cfg/ml-agent/schemas/L1.json'' :=
                     Holds (Doc \<lparr>list_id = ''L1'', columns = [status_column, owner_column]\<rparr>))\<rparr>)"
proof -
  let ?bare = "world_with empty_files (sample_service (Inl unsupported) [bare_item] (Inl unsupported))"
  let ?full = "world_with cached_files (sample_service (Inl unsupported) [sample_item] (Inl unsupported))"
  have m: "mergeSchemas (Some confirmed_schema) inferred_schema =
      \<lparr>list_id = ''L1'', columns = [status_column, owner_column]\<rparr>"
    by (simp add: mergeSchemas_def confirmed_schema_def inferred_schema_def status_column_def
          owner_column_def conflicting_status_column_def)
  have a: "resolveSchemaIndex sample_deps sample_env ''L1'' None False ?bare =
     (Inr None,
      ?bare\<lparr>trace := [CacheRead ''/cfg/ml-agent/schemas/L1.json'',
                   CacheRead ''/cfg/slack-lists-cli/schemas/L1.json'',
                   info_call ''L1'', items_list_call ''L1'', items_info_call ''L1'' (JStr ''I2'')]\<rparr>)"
    using zero_columns_soft_failure [where e = sample_env and sp = None and l = "''L1''"
        and rc = False and w = ?bare and ir = "items_response [bare_item]" and D = sample_deps
        and inferred = "\<lparr>list_id = ''L1'', columns = []\<rparr>"]
    by (simp add: sample_answers sample_world_facts sample_world_fields
          present_def describe_unavailable_def sample_service_def
          probe_passes_def probe_events_def sample_inference)
  have b: "resolveSchemaIndex sample_deps sample_env ''L1'' None True ?full =
     (Inr (Some \<lparr>list_id = ''L1'', columns = [status_column, owner_column]\<rparr>),
      ?full\<lparr>trace := [info_call ''L1'', items_list_call ''L1'', items_info_call ''L1'' (JStr ''I1''),
                   CacheRead ''/cfg/ml-agent/schemas/L1.json'',
                   CacheMkdir ''/cfg/ml-agent/schemas'',
                   CacheWrite ''/cfg/ml-agent/schemas/L1.json''
                     \<lparr>list_id = ''L1'', columns = [status_column, owner_column]\<rparr>],
          files := cached_files(''/cfg/ml-agent/schemas/L1.json'' :=
                     Holds (Doc \<lparr>list_id = ''L1'', columns = [status_column, owner_column]\<rparr>))\<rparr>)"
    using zero_columns_soft_failure [where e = sample_env and sp = None and l = "''L1''"
        and rc = True and w = ?full and ir = "items_response [sample_item]" and D = sample_deps
        and inferred = inferred_schema and cached = "Some confirmed_schema"
        and reads = "[''/cfg/ml-agent/schemas/L1.json'']"]
    by (simp add: sample_answers sample_world_facts sample_world_fields cache_misses_def
          cache_probe_def present_def describe_unavailable_def sample_service_def
          probe_passes_def probe_events_def sample_inference inferred_schema_def
          sample_paths m [unfolded inferred_schema_def])
  from a b show ?thesis by blast
qed

text \<open>
  C1. The tiers of \<^verbatim>\<open>resolveSchemaIndex\<close>, in order, each with its result and the
  exact events it performs. (1) A resolved, non-empty schema path: the file is read and
  indexed; the only event is that read. (2) Otherwise, without a refresh, a cached
  schema is indexed and returned after cache reads only. (3) Otherwise the describe call
  comes first among the remote calls; an ok response is normalized, saved and indexed.
  (4) Otherwise one page of at most 100 items is listed, the detail of the first item is
  fetched, and embedded list metadata is normalized, saved and indexed. (5) Otherwise
  the schema inferred from the sampled items, when it has a column, is merged with the
  cached schema, saved, and the index of the merge is returned.
\<close>

theorem resolve_tiers_in_order:
  "(resolveSchemaPath e sp = Some p \<and> p \<noteq> [] \<longrightarrow>
      resolveSchemaIndex D e l sp rc w =
        ((case files w p of
            ReadFails err \<Rightarrow> Inl err
          | Holds Malformed \<Rightarrow> Inl syntax_error
          | Holds (Doc s) \<Rightarrow> Inr (Some (buildSchemaIndex D s))),
         w\<lparr>trace := trace w @ [SchemaFileRead p]\<rparr>))
   \<and> (\<not> present (resolveSchemaPath e sp) \<and> \<not> rc
        \<and> cache_lookup e l (files w) = (Inr (Some c), reads) \<longrightarrow>
      resolveSchemaIndex D e l sp rc w =
        (Inr (Some (buildSchemaIndex D c)), w\<lparr>trace := trace w @ map CacheRead reads\<rparr>))
   \<and> (\<not> present (resolveSchemaPath e sp) \<and> cache_misses e l rc w
        \<and> service w ''slackLists.info'' [(''list_id'', JStr l)] = Inr result
        \<and> truthy (js_get (JObj result) ''ok'')
        \<and> normalizeSchema D (JObj result) = Inr s
        \<and> can_save e l w \<longrightarrow>
      resolveSchemaIndex D e l sp rc w =
        (Inr (Some (buildSchemaIndex D s)),
         w\<lparr>trace := trace w @ cache_probe e l rc @ info_call l # save_events e l s,
           files := (files w)(getSchemaCachePath e l := Holds (Doc s))\<rparr>))
   \<and> (\<not> present (resolveSchemaPath e sp) \<and> cache_misses e l rc w \<and> describe_unavailable l w
        \<and> service w ''slackLists.items.list''
             [(''list_id'', JStr l), (''limit'', JNum (Finite 100))] = Inr ir
        \<and> truthy (first_item_id (items_of (JObj ir)))
        \<and> service w ''slackLists.items.info''
             [(''list_id'', JStr l), (''id'', first_item_id (items_of (JObj ir)))] = Inr detail
        \<and> truthy (js_get (js_get (JObj detail) ''list'') ''list_metadata'')
        \<and> normalizeSchema D
             (JObj [(''list_metadata'', js_get (js_get (JObj detail) ''list'') ''list_metadata''),
                    (''list_id'', js_coalesce (js_get (js_get (JObj detail) ''list'') ''id'') (JStr l))])
            = Inr s
        \<and> can_save e l w \<longrightarrow>
      resolveSchemaIndex D e l sp rc w =
        (Inr (Some (buildSchemaIndex D s)),
         w\<lparr>trace := trace w @ cache_probe e l rc @
                   [info_call l, items_list_call l,
                    items_info_call l (first_item_id (items_of (JObj ir)))] @ save_events e l s,
           files := (files w)(getSchemaCachePath e l := Holds (Doc s))\<rparr>))
   \<and> (\<not> present (resolveSchemaPath e sp) \<and> cache_misses e l rc w \<and> describe_unavailable l w
        \<and> service w ''slackLists.items.list''
             [(''list_id'', JStr l), (''limit'', JNum (Finite 100))] = Inr ir
        \<and> probe_passes l (first_item_id (items_of (JObj ir))) w
        \<and> inferSchemaFromItems D l (items_of (JObj ir)) = Inr inferred
        \<and> columns inferred \<noteq> []
        \<and> cache_lookup e l (files w) = (Inr cached, reads)
        \<and> can_save e l w \<longrightarrow>
      resolveSchemaIndex D e l sp rc w =
        (Inr (Some (buildSchemaIndex D (mergeSchemas cached inferred))),
         w\<lparr>trace := trace w @ cache_probe e l rc @ [info_call l, items_list_call l]
                    @ probe_events l (first_item_id (items_of (JObj ir)))
                    @ map CacheRead reads @ save_events e l (mergeSchemas cached inferred),
           files := (files w)(getSchemaCachePath e l := Holds (Doc (mergeSchemas cached inferred)))\<rparr>))"
proof (intro conjI impI)
  assume "resolveSchemaPath e sp = Some p \<and> p \<noteq> []"
  then show "resolveSchemaIndex D e l sp rc w =
        ((case files w p of
            ReadFails err \<Rightarrow> Inl err
          | Holds Malformed \<Rightarrow> Inl syntax_error
          | Holds (Doc s) \<Rightarrow> Inr (Some (buildSchemaIndex D s))),
         w\<lparr>trace := trace w @ [SchemaFileRead p]\<rparr>)"
    by (simp add: override_tier)
next
  assume "\<not> present (resolveSchemaPath e sp) \<and> \<not> rc
        \<and> cache_lookup e l (files w) = (Inr (Some c), reads)"
  then show "resolveSchemaIndex D e l sp rc w =
        (Inr (Some (buildSchemaIndex D c)), w\<lparr>trace := trace w @ map CacheRead reads\<rparr>)"
    by (simp add: resolve_cache_hit)
next
  assume "\<not> present (resolveSchemaPath e sp) \<and> cache_misses e l rc w
        \<and> service w ''slackLists.info'' [(''list_id'', JStr l)] = Inr result
        \<and> truthy (js_get (JObj result) ''ok'')
        \<and> normalizeSchema D (JObj result) = Inr s
        \<and> can_save e l w"
  then show "resolveSchemaIndex D e l sp rc w =
        (Inr (Some (buildSchemaIndex D s)),
         w\<lparr>trace := trace w @ cache_probe e l rc @ info_call l # save_events e l s,
           files := (files w)(getSchemaCachePath e l := Holds (Doc s))\<rparr>)"
    by (elim conjE) (rule resolve_describe_success; assumption)
next
  assume "\<not> present (resolveSchemaPath e sp) \<and> cache_misses e l rc w \<and> describe_unavailable l w
        \<and> service w ''slackLists.items.list''
             [(''list_id'', JStr l), (''limit'', JNum (Finite 100))] = Inr ir
        \<and> truthy (first_item_id (items_of (JObj ir)))
        \<and> service w ''slackLists.items.info''
             [(''list_id'', JStr l), (''id'', first_item_id (items_of (JObj ir)))] = Inr detail
        \<and> truthy (js_get (js_get (JObj detail) ''list'') ''list_metadata'')
        \<and> normalizeSchema D
             (JObj [(''list_metadata'', js_get (js_get (JObj detail) ''list'') ''list_metadata''),
                    (''list_id'', js_coalesce (js_get (js_get (JObj detail) ''list'') ''id'') (JStr l))])
            = Inr s
        \<and> can_save e l w"
  then show "resolveSchemaIndex D e l sp rc w =
        (Inr (Some (buildSchemaIndex D s)),
         w\<lparr>trace := trace w @ cache_probe e l rc @
                   [info_call l, items_list_call l,
                    items_info_call l (first_item_id (items_of (JObj ir)))] @ save_events e l s,
           files := (files w)(getSchemaCachePath e l := Holds (Doc s))\<rparr>)"
    by (elim conjE) (rule resolve_probe_success[where detail = detail]; assumption)
next
  assume "\<not> present (resolveSchemaPath e sp) \<and> cache_misses e l rc w \<and> describe_unavailable l w
        \<and> service w ''slackLists.items.list''
             [(''list_id'', JStr l), (''limit'', JNum (Finite 100))] = Inr ir
        \<and> probe_passes l (first_item_id (items_of (JObj ir))) w
        \<and> inferSchemaFromItems D l (items_of (JObj ir)) = Inr inferred
        \<and> columns inferred \<noteq> []
        \<and> cache_lookup e l (files w) = (Inr cached, reads)
        \<and> can_save e l w"
  then show "resolveSchemaIndex D e l sp rc w =
        (Inr (Some (buildSchemaIndex D (mergeSchemas cached inferred))),
         w\<lparr>trace := trace w @ cache_probe e l rc @ [info_call l, items_list_call l]
                    @ probe_events l (first_item_id (items_of (JObj ir)))
                    @ map CacheRead reads @ save_events e l (mergeSchemas cached inferred),
           files := (files w)(getSchemaCachePath e l := Holds (Doc (mergeSchemas cached inferred)))\<rparr>)"
    by (elim conjE) (rule resolve_inferred; assumption)
qed


lemma sample_override_facts:
  "resolveSchemaPath sample_env (Some p) = Some p"
  "resolveSchemaPath (env_with_schema_path p) None = Some p"
  "SLACK_LIST_SCHEMA_PATH (env_with_schema_path p) = Some p"
  "getSchemaCachePath (env_with_schema_path p) ''L1'' = ''/cfg/ml-agent/schemas/L1.json''"
  "legacySchemaPath (env_with_schema_path p) ''L1'' = ''/cfg/slack-lists-cli/schemas/L1.json''"
  "cache_lookup (env_with_schema_path p) ''L1'' cached_files =
     (Inr (Some confirmed_schema), [''/cfg/ml-agent/schemas/L1.json''])"
  by (simp_all add: resolveSchemaPath_def env_with_schema_path_def getSchemaCachePath_def
        legacySchemaPath_def getCacheDir_def getLegacyCacheDir_def config_base_def
        path_join_def NEW_CACHE_DIR_def LEGACY_CACHE_DIR_def cache_lookup_def cached_files_def)

theorem resolve_tiers_in_order_witness:
  "resolveSchemaIndex sample_deps sample_env ''L1'' (Some ''/work/schema.json'') False
      (world_with override_and_cache_files no_service) =
     (Inr (Some inferred_schema),
      world_with override_and_cache_files no_service\<lparr>trace := [SchemaFileRead ''/work/schema.json'']\<rparr>)
   \<and> resolveSchemaIndex sample_deps sample_env ''L1'' None False
      (world_with cached_files no_service) =
     (Inr (Some confirmed_schema),
      world_with cached_files no_service\<lparr>trace := [CacheRead ''/cfg/ml-agent/schemas/L1.json'']\<rparr>)
   \<and> resolveSchemaIndex sample_deps sample_env ''L1'' None False
      (world_with empty_files (sample_service (Inr [(''ok'', JBool True)]) [] (Inl unsupported))) =
     (Inr (Some confirmed_schema),
      world_with empty_files (sample_service (Inr [(''ok'', JBool True)]) [] (Inl unsupported))
        \<lparr>trace := [CacheRead ''/cfg/ml-agent/schemas/L1.json'',
                   CacheRead ''/cfg/slack-lists-cli/schemas/L1.json'',
                   info_call ''L1'',
                   CacheMkdir ''/cfg/ml-agent/schemas'',
                   CacheWrite ''/cfg/ml-agent/schemas/L1.json'' confirmed_schema],
          files := empty_files(''/cfg/ml-agent/schemas/L1.json'' := Holds (Doc confirmed_schema))\<rparr>)
   \<and> resolveSchemaIndex sample_deps sample_env ''L1'' None False
      (world_with empty_files
         (sample_service (Inl unsupported) [sample_item] (Inr detail_with_metadata))) =
     (Inr (Some confirmed_schema),
      world_with empty_files
         (sample_service (Inl unsupported) [sample_item] (Inr detail_with_metadata))
        \<lparr>trace := [CacheRead ''/cfg/ml-agent/schemas/L1.json'',
                   CacheRead ''/cfg/slack-lists-cli/schemas/L1.json'',
                   info_call ''L1'', items_list_call ''L1'', items_info_call ''L1'' (JStr ''I1''),
                   CacheMkdir ''/cfg/ml-agent/schemas'',
                   CacheWrite ''/cfg/ml-agent/schemas/L1.json'' confirmed_schema],
          files := empty_files(''/cfg/ml-agent/schemas/L1.json'' := Holds (Doc confirmed_schema))\<rparr>)
   \<and> resolveSchemaIndex sample_deps sample_env ''L1'' None False
      (world_with empty_files (sample_service (Inl unsupported) [sample_item] (Inl unsupported))) =
     (Inr (Some inferred_schema),
      world_with empty_files (sample_service (Inl unsupported) [sample_item] (Inl unsupported))
        \<lparr>trace := [CacheRead ''/cfg/ml-agent/schemas/L1.json'',
                   CacheRead ''/cfg/slack-lists-cli/schemas/L1.json'',
                   info_call ''L1'', items_list_call ''L1'', items_info_call ''L1'' (JStr ''I1''),
                   CacheRead ''/cfg/ml-agent/schemas/L1.json'',
                   CacheRead ''/cfg/slack-lists-cli/schemas/L1.json'',
                   CacheMkdir ''/cfg/ml-agent/schemas'',
                   CacheWrite ''/cfg/ml-agent/schemas/L1.json'' inferred_schema],
          files := empty_files(''/cfg/ml-agent/schemas/L1.json'' := Holds (Doc inferred_schema))\<rparr>)"
proof -
  have a: "resolveSchemaIndex sample_deps sample_env ''L1'' (Some ''/work/schema.json'') False
      (world_with override_and_cache_files no_service) =
     (Inr (Some inferred_schema),
      world_with override_and_cache_files no_service\<lparr>trace := [SchemaFileRead ''/work/schema.json'']\<rparr>)"
    using resolve_tiers_in_order [where e = sample_env and sp = "Some ''/work/schema.json''"
        and p = "''/work/schema.json''" and D = sample_deps and l = "''L1''" and rc = False
        and w = "world_with override_and_cache_files no_service",
        THEN conjunct1]
    by (simp add: sample_override_facts sample_world_fields override_and_cache_files_def
          sample_inference)
  have b: "resolveSchemaIndex sample_deps sample_env ''L1'' None False
      (world_with cached_files no_service) =
     (Inr (Some confirmed_schema),
      world_with cached_files no_service\<lparr>trace := [CacheRead ''/cfg/ml-agent/schemas/L1.json'']\<rparr>)"
    using resolve_tiers_in_order [where e = sample_env and sp = None and D = sample_deps and l = "''L1''"
        and rc = False and w = "world_with cached_files no_service" and c = confirmed_schema
        and reads = "[''/cfg/ml-agent/schemas/L1.json'']",
        THEN conjunct2, THEN conjunct1]
    by (simp add: sample_world_facts sample_world_fields sample_inference)
  have c: "resolveSchemaIndex sample_deps sample_env ''L1'' None False
      (world_with empty_files (sample_service (Inr [(''ok'', JBool True)]) [] (Inl unsupported))) =
     (Inr (Some confirmed_schema),
      world_with empty_files (sample_service (Inr [(''ok'', JBool True)]) [] (Inl unsupported))
        \<lparr>trace := [CacheRead ''/cfg/ml-agent/schemas/L1.json'',
                   CacheRead ''/cfg/slack-lists-cli/schemas/L1.json'',
                   info_call ''L1'',
                   CacheMkdir ''/cfg/ml-agent/schemas'',
                   CacheWrite ''/cfg/ml-agent/schemas/L1.json'' confirmed_schema],
          files := empty_files(''/cfg/ml-agent/schemas/L1.json'' := Holds (Doc confirmed_schema))\<rparr>)"
    using resolve_tiers_in_order [where e = sample_env and sp = None and D = sample_deps and l = "''L1''"
        and rc = False
        and w = "world_with empty_files (sample_service (Inr [(''ok'', JBool True)]) [] (Inl unsupported))"
        and result = "[(''ok'', JBool True)]" and s = confirmed_schema,
        THEN conjunct2, THEN conjunct2, THEN conjunct1]
    by (simp add: sample_world_facts sample_world_fields sample_inference sample_service_def
          sample_paths)
  have d: "resolveSchemaIndex sample_deps sample_env ''L1'' None False
      (world_with empty_files
         (sample_service (Inl unsupported) [sample_item] (Inr detail_with_metadata))) =
     (Inr (Some confirmed_schema),
      world_with empty_files
         (sample_service (Inl unsupported) [sample_item] (Inr detail_with_metadata))
        \<lparr>trace := [CacheRead ''/cfg/ml-agent/schemas/L1.json'',
                   CacheRead ''/cfg/slack-lists-cli/schemas/L1.json'',
                   info_call ''L1'', items_list_call ''L1'', items_info_call ''L1'' (JStr ''I1''),
                   CacheMkdir ''/cfg/ml-agent/schemas'',
                   CacheWrite ''/cfg/ml-agent/schemas/L1.json'' confirmed_schema],
          files := empty_files(''/cfg/ml-agent/schemas/L1.json'' := Holds (Doc confirmed_schema))\<rparr>)"
    using resolve_tiers_in_order [where e = sample_env and sp = None and D = sample_deps and l = "''L1''"
        and rc = False
        and w = "world_with empty_files
                   (sample_service (Inl unsupported) [sample_item] (Inr detail_with_metadata))"
        and ir = "items_response [sample_item]" and detail = detail_with_metadata
        and s = confirmed_schema,
        THEN conjunct2, THEN conjunct2, THEN conjunct2, THEN conjunct1]
    by (simp add: sample_world_facts sample_world_fields sample_inference sample_service_def
          sample_paths sample_answers describe_unavailable_def detail_with_metadata_def)
  have e: "resolveSchemaIndex sample_deps sample_env ''L1'' None False
      (world_with empty_files (sample_service (Inl unsupported) [sample_item] (Inl unsupported))) =
     (Inr (Some inferred_schema),
      world_with empty_files (sample_service (Inl unsupported) [sample_item] (Inl unsupported))
        \<lparr>trace := [CacheRead ''/cfg/ml-agent/schemas/L1.json'',
                   CacheRead ''/cfg/slack-lists-cli/schemas/L1.json'',
                   info_call ''L1'', items_list_call ''L1'', items_info_call ''L1'' (JStr ''I1''),
                   CacheRead ''/cfg/ml-agent/schemas/L1.json'',
                   CacheRead ''/cfg/slack-lists-cli/schemas/L1.json'',
                   CacheMkdir ''/cfg/ml-agent/schemas'',
                   CacheWrite ''/cfg/ml-agent/schemas/L1.json'' inferred_schema],
          files := empty_files(''/cfg/ml-agent/schemas/L1.json'' := Holds (Doc inferred_schema))\<rparr>)"
    using resolve_tiers_in_order [where e = sample_env and sp = None and D = sample_deps and l = "''L1''"
        and rc = False
        and w = "world_with empty_files (sample_service (Inl unsupported) [sample_item] (Inl unsupported))"
        and ir = "items_response [sample_item]" and inferred = inferred_schema
        and cached = None
        and reads = "[''/cfg/ml-agent/schemas/L1.json'', ''/cfg/slack-lists-cli/schemas/L1.json'']",
        THEN conjunct2, THEN conjunct2, THEN conjunct2, THEN conjunct2]
    by (simp add: sample_world_facts sample_world_fields sample_inference sample_service_def
          sample_paths sample_answers describe_unavailable_def probe_passes_def
          probe_events_def inferred_schema_def mergeSchemas_def)
  from a b c d e show ?thesis by blast
qed

text \<open>
  C10, amended. \<^verbatim>\<open>resolveSchemaPath\<close> returns the path of the command line when
  there is one, else the environment variable. With no path argument and
  SLACK_LIST_SCHEMA_PATH set to a non-empty value, the resolver reads the file the
  variable names and nothing else: no cache read, no cache write, no remote call.
\<close>

theorem env_schema_path_override:
  "resolveSchemaPath e (Some cli) = Some cli
   \<and> resolveSchemaPath e None = SLACK_LIST_SCHEMA_PATH e
   \<and> (SLACK_LIST_SCHEMA_PATH e = Some p \<and> p \<noteq> [] \<longrightarrow>
        resolveSchemaIndex D e l None rc w =
          ((case files w p of
              ReadFails err \<Rightarrow> Inl err
            | Holds Malformed \<Rightarrow> Inl syntax_error
            | Holds (Doc s) \<Rightarrow> Inr (Some (buildSchemaIndex D s))),
           w\<lparr>trace := trace w @ [SchemaFileRead p]\<rparr>))"
  by (simp add: resolveSchemaPath_def override_tier)

theorem env_schema_path_override_witness:
  "resolveSchemaIndex sample_deps (env_with_schema_path ''/work/schema.json'') ''L1'' None False
      (world_with override_and_cache_files no_service) =
     (Inr (Some inferred_schema),
      world_with override_and_cache_files no_service\<lparr>trace := [SchemaFileRead ''/work/schema.json'']\<rparr>)"
  using env_schema_path_override [of "env_with_schema_path ''/work/schema.json''" _
      "''/work/schema.json''" sample_deps "''L1''" False
      "world_with override_and_cache_files no_service"]
  by (simp add: sample_override_facts sample_world_fields override_and_cache_files_def
        sample_inference)

text \<open>
  C10, as the claim states it, fails: with the variable set to the empty string and no
  path argument, the resolver consults the cache and returns the cached schema.
\<close>

theorem empty_env_schema_path_counterexample:
  "SLACK_LIST_SCHEMA_PATH (env_with_schema_path []) = Some []
   \<and> resolveSchemaIndex sample_deps (env_with_schema_path []) ''L1'' None False
       (world_with cached_files no_service) =
     (Inr (Some confirmed_schema),
      world_with cached_files no_service\<lparr>trace := [CacheRead ''/cfg/ml-agent/schemas/L1.json'']\<rparr>)"
  using resolve_cache_hit [of "env_with_schema_path []" None False "''L1''"
      "world_with cached_files no_service" confirmed_schema
      "[''/cfg/ml-agent/schemas/L1.json'']" sample_deps]
  by (simp add: sample_override_facts sample_world_fields sample_inference present_def)

subsection \<open>Reading values out of an item\<close>


















subsection \<open>Cache updates after item reads\<close>

lemma syncSchemaCache_total: "fst (syncSchemaCache D e l items w) = Inr ()"
  by (simp add: syncSchemaCache_def io_catch_def io_return_def split: prod.splits sum.splits)

lemma embedded_schema_update_total: "fst (embedded_schema_update D e l result w) = Inr ()"
  by (simp add: embedded_schema_update_def io_catch_def io_return_def
        split: prod.splits sum.splits)

lemma io_bind_total:
  "fst (m w) = Inr () \<Longrightarrow> io_bind m f w = f () (snd (m w))"
  by (cases "m w") (simp add: io_bind_def)

lemma items_get_action_result:
  "fst (items_get_action D e l itemId w) =
     map_sum id JObj (service w ''slackLists.items.info'' [(''list_id'', JStr l), (''id'', JStr itemId)])"
proof (cases "service w ''slackLists.items.info'' [(''list_id'', JStr l), (''id'', JStr itemId)]")
  case (Inl err)
  then show ?thesis
    by (simp add: items_get_action_def io_bind_def client_call_eval)
next
  case (Inr result)
  let ?w1 = "w\<lparr>trace := trace w @ [RemoteCall ''slackLists.items.info'' [(''list_id'', JStr l), (''id'', JStr itemId)]]\<rparr>"
  let ?item = "js_coalesce (js_get (JObj result) ''item'') (js_get (JObj result) ''record'')"
  let ?w2 = "snd (embedded_schema_update D e l (JObj result) ?w1)"
  have s: "fst ((if truthy ?item then syncSchemaCache D e l [?item] else io_return ()) ?w2) = Inr ()"
    by (simp add: syncSchemaCache_total io_return_def)
  have "items_get_action D e l itemId w =
     io_bind (embedded_schema_update D e l (JObj result))
       (\<lambda>_. io_bind (if truthy ?item then syncSchemaCache D e l [?item] else io_return ())
              (\<lambda>_. io_return (JObj result))) ?w1"
    using Inr by (simp add: items_get_action_def io_bind_def client_call_eval Let_def)
  also have "\<dots> = io_bind (if truthy ?item then syncSchemaCache D e l [?item] else io_return ())
              (\<lambda>_. io_return (JObj result)) ?w2"
    by (rule io_bind_total) (rule embedded_schema_update_total)
  also have "\<dots> = io_return (JObj result)
      (snd ((if truthy ?item then syncSchemaCache D e l [?item] else io_return ()) ?w2))"
    by (rule io_bind_total) (rule s)
  finally show ?thesis using Inr by (simp add: io_return_def)
qed

lemma saveSchemaCache_trace_frame:
  "fst (saveSchemaCache e l s (w\<lparr>trace := t\<rparr>)) = fst (saveSchemaCache e l s w)"
  by (simp add: saveSchemaCache_eval split: option.splits)

lemma updateSchemaCache_result:
  "fst (updateSchemaCache e l s w) =
     (case fst (cache_lookup e l (files w)) of
        Inl err \<Rightarrow> Inl err
      | Inr cached \<Rightarrow>
          (case fst (saveSchemaCache e l (mergeSchemas cached s) w) of
             Inl err \<Rightarrow> Inl err
           | Inr u \<Rightarrow> Inr (mergeSchemas cached s)))"
proof (cases "fst (cache_lookup e l (files w))")
  case (Inl err)
  then show ?thesis
    by (simp add: updateSchemaCache_def io_bind_def loadCachedSchema_lookup)
next
  case (Inr cached)
  let ?w1 = "w\<lparr>trace := trace w @ map CacheRead (snd (cache_lookup e l (files w)))\<rparr>"
  have "fst (saveSchemaCache e l (mergeSchemas cached s) ?w1) =
        fst (saveSchemaCache e l (mergeSchemas cached s) w)"
    by (rule saveSchemaCache_trace_frame)
  then show ?thesis
    using Inr
    by (cases "saveSchemaCache e l (mergeSchemas cached s) ?w1")
       (auto simp: updateSchemaCache_def io_bind_def loadCachedSchema_lookup Let_def
          io_return_def split: sum.splits)
qed

text \<open>
  The cache updates after item reads never fail: \<^verbatim>\<open>syncSchemaCache\<close> and the
  update from embedded metadata in \<^verbatim>\<open>items get\<close> return normally whatever the
  inference, the normalization, the cache read or the cache write does, and the outcome
  of \<^verbatim>\<open>items get\<close> is the outcome of its remote read alone. In the operations of
  lib/cache.ts failures propagate: a read failure other than ENOENT, of the canonical
  or of the legacy path, is thrown by \<^verbatim>\<open>loadCachedSchema\<close> and by
  \<^verbatim>\<open>updateSchemaCache\<close>; a failure to create the directory or to write the file is
  thrown by \<^verbatim>\<open>saveSchemaCache\<close> and by \<^verbatim>\<open>updateSchemaCache\<close>.
\<close>

lemma best_effort_cache_updates:
  "fst (syncSchemaCache D e l items w) = Inr ()
   \<and> fst (embedded_schema_update D e l result w) = Inr ()
   \<and> fst (items_get_action D e l itemId w) =
       map_sum id JObj
         (service w ''slackLists.items.info'' [(''list_id'', JStr l), (''id'', JStr itemId)])
   \<and> (files w (getSchemaCachePath e l) = ReadFails err \<and> err_code err \<noteq> Some ''ENOENT'' \<longrightarrow>
        fst (loadCachedSchema e l w) = Inl err \<and> fst (updateSchemaCache e l s w) = Inl err)
   \<and> (absent w (getSchemaCachePath e l) \<and> files w (legacySchemaPath e l) = ReadFails err
        \<and> err_code err \<noteq> Some ''ENOENT'' \<longrightarrow>
        fst (loadCachedSchema e l w) = Inl err \<and> fst (updateSchemaCache e l s w) = Inl err)
   \<and> (mkdir_failure w (path_dirname (getSchemaCachePath e l)) = Some err \<longrightarrow>
        fst (saveSchemaCache e l s w) = Inl err)
   \<and> (mkdir_failure w (path_dirname (getSchemaCachePath e l)) = None
        \<and> write_failure w (getSchemaCachePath e l) = Some err \<longrightarrow>
        fst (saveSchemaCache e l s w) = Inl err)
   \<and> (fst (loadCachedSchema e l w) = Inr cached
        \<and> fst (saveSchemaCache e l (mergeSchemas cached s) w) = Inl err \<longrightarrow>
        fst (updateSchemaCache e l s w) = Inl err)"
  apply (intro conjI impI)
  subgoal by (rule syncSchemaCache_total)
  subgoal by (rule embedded_schema_update_total)
  subgoal by (rule items_get_action_result)
  subgoal by (simp add: loadCachedSchema_eval)
  subgoal by (simp add: updateSchemaCache_result cache_lookup_def)
  subgoal by (auto simp: loadCachedSchema_eval absent_def split: stored.splits)
  subgoal by (auto simp: updateSchemaCache_result cache_lookup_def absent_def split: stored.splits)
  subgoal by (simp add: saveSchemaCache_eval)
  subgoal by (simp add: saveSchemaCache_eval)
  subgoal by (simp add: updateSchemaCache_result loadCachedSchema_lookup)
  done

lemma best_effort_cache_updates_example:
  "fst (updateSchemaCache sample_env ''L1'' inferred_schema readonly_world) = Inl EACCES
   \<and> fst (syncSchemaCache sample_deps sample_env ''L1'' [sample_item] readonly_world) = Inr ()
   \<and> fst (items_get_action sample_deps sample_env ''L1'' ''I1'' readonly_world) =
       Inr (JObj [(''ok'', JBool True), (''item'', sample_item)])
   \<and> fst (loadCachedSchema sample_env ''L1'' (world_with locked_files no_service)) = Inl EACCES"
proof -
  have a: "fst (updateSchemaCache sample_env ''L1'' inferred_schema readonly_world) = Inl EACCES"
    using best_effort_cache_updates [where e = sample_env and l = "''L1''" and w = readonly_world
        and s = inferred_schema and cached = "Some confirmed_schema" and err = EACCES,
        THEN conjunct2, THEN conjunct2, THEN conjunct2, THEN conjunct2, THEN conjunct2,
        THEN conjunct2, THEN conjunct2]
    by (simp add: loadCachedSchema_eval saveSchemaCache_eval sample_paths readonly_world_def
          cached_files_def)
  have b: "fst (syncSchemaCache sample_deps sample_env ''L1'' [sample_item] readonly_world) = Inr ()"
    using best_effort_cache_updates [where D = sample_deps and e = sample_env and l = "''L1''"
        and w = readonly_world and items = "[sample_item]", THEN conjunct1]
    by simp
  have c: "fst (items_get_action sample_deps sample_env ''L1'' ''I1'' readonly_world) =
       Inr (JObj [(''ok'', JBool True), (''item'', sample_item)])"
    using best_effort_cache_updates [where D = sample_deps and e = sample_env and l = "''L1''"
        and w = readonly_world and itemId = "''I1''", THEN conjunct2, THEN conjunct2, THEN conjunct1]
    by (simp add: readonly_world_def sample_service_def)
  have d: "fst (loadCachedSchema sample_env ''L1'' (world_with locked_files no_service)) = Inl EACCES"
    using best_effort_cache_updates [where e = sample_env and l = "''L1''"
        and w = "world_with locked_files no_service" and err = EACCES,
        THEN conjunct2, THEN conjunct2, THEN conjunct2, THEN conjunct1]
    by (simp add: sample_paths world_with_def locked_files_def EACCES_def)
  from a b c d show ?thesis by blast
qed

text \<open>
  C8. The claim: outside the best-effort updates after item reads, cache read and write
  failures propagate. The code at a failing input: no file can be written, the describe
  call is unsupported, the detail of the first item embeds list metadata and the
  inference yields no column. Saving the normalized schema fails with EACCES, and the
  resolver returns the "no schema" value without an error. The same failed write in
  tier 3 is thrown to the caller.
\<close>

theorem probe_swallows_cache_write_failure:
  "fst (saveSchemaCache sample_env ''L1'' confirmed_schema
         (unwritable_world
            (sample_service (Inl unsupported) [bare_item] (Inr detail_with_metadata)))) = Inl EACCES
   \<and> resolveSchemaIndex sample_deps sample_env ''L1'' None False
       (unwritable_world (sample_service (Inl unsupported) [bare_item] (Inr detail_with_metadata))) =
     (Inr None,
      unwritable_world (sample_service (Inl unsupported) [bare_item] (Inr detail_with_metadata))
        \<lparr>trace := [CacheRead ''/cfg/ml-agent/schemas/L1.json'',
                   CacheRead ''/cfg/slack-lists-cli/schemas/L1.json'',
                   info_call ''L1'', items_list_call ''L1'', items_info_call ''L1'' (JStr ''I2''),
                   CacheMkdir ''/cfg/ml-agent/schemas'',
                   CacheWrite ''/cfg/ml-agent/schemas/L1.json'' confirmed_schema]\<rparr>)
   \<and> fst (resolveSchemaIndex sample_deps sample_env ''L1'' None False
       (unwritable_world (sample_service (Inr [(''ok'', JBool True)]) [] (Inl unsupported)))) =
     Inl EACCES"
proof -
  let ?u = "unwritable_world (sample_service (Inl unsupported) [bare_item] (Inr detail_with_metadata))"
  let ?v = "unwritable_world (sample_service (Inr [(''ok'', JBool True)]) [] (Inl unsupported))"
  let ?t2 = "[CacheRead ''/cfg/ml-agent/schemas/L1.json'',
              CacheRead ''/cfg/slack-lists-cli/schemas/L1.json'',
              info_call ''L1'', items_list_call ''L1'']"
  let ?t3 = "[CacheRead ''/cfg/ml-agent/schemas/L1.json'',
              CacheRead ''/cfg/slack-lists-cli/schemas/L1.json'',
              info_call ''L1'', items_list_call ''L1'', items_info_call ''L1'' (JStr ''I2''),
              CacheMkdir ''/cfg/ml-agent/schemas'',
              CacheWrite ''/cfg/ml-agent/schemas/L1.json'' confirmed_schema]"
  have s: "fst (saveSchemaCache sample_env ''L1'' confirmed_schema ?u) = Inl EACCES"
    by (subst saveSchemaCache_write_fails[where err = EACCES])
       (simp_all add: unwritable_world_fields)
  have p: "metadata_probe sample_deps sample_env ''L1'' (JStr ''I2'') (?u\<lparr>trace := ?t2\<rparr>) =
           (Inr None, ?u\<lparr>trace := ?t3\<rparr>)"
    by (subst metadata_probe_save_fails[where err = EACCES and s = confirmed_schema
          and detail = detail_with_metadata])
       (simp_all add: unwritable_world_fields sample_service_def detail_with_metadata_def
          sample_inference sample_world_facts present_def)
  have r: "resolveSchemaIndex sample_deps sample_env ''L1'' None False ?u =
      from_inference sample_deps sample_env ''L1'' [bare_item] (?u\<lparr>trace := ?t3\<rparr>)"
    using resolve_to_inference [of sample_env None "''L1''" False ?u "items_response [bare_item]"
        sample_deps "?u\<lparr>trace := ?t3\<rparr>"] p
    by (simp add: sample_answers sample_world_facts sample_world_fields unwritable_world_fields
          present_def describe_unavailable_def sample_service_def)
  have f: "from_inference sample_deps sample_env ''L1'' [bare_item] (?u\<lparr>trace := ?t3\<rparr>) =
      (Inr None, ?u\<lparr>trace := ?t3\<rparr>)"
    by (rule from_inference_empty[where inferred = "\<lparr>list_id = ''L1'', columns = []\<rparr>"])
       (simp_all add: sample_inference)
  have d: "describe_tier sample_deps sample_env ''L1''
             (?v\<lparr>trace := trace ?v @ cache_probe sample_env ''L1'' False\<rparr>) =
           (Inl EACCES,
            ?v\<lparr>trace := trace ?v @ cache_probe sample_env ''L1'' False
                       @ info_call ''L1'' # save_events sample_env ''L1'' confirmed_schema\<rparr>)"
    by (subst describe_tier_save_fails[where err = EACCES and s = confirmed_schema
          and result = "[(''ok'', JBool True)]"])
       (simp_all add: unwritable_world_fields sample_service_def sample_inference)
  have e: "fst (resolveSchemaIndex sample_deps sample_env ''L1'' None False ?v) = Inl EACCES"
    by (subst resolve_describe_fatal[OF _ _ d])
       (simp_all add: sample_world_fields unwritable_world_fields)
  show ?thesis using s r f e by simp
qed

end
